theory Spec2Isabelle
  imports Complex_Main "HOL-Library.DAList"
begin

section \<open>Values of the platform\<close>

text \<open>
  The server of \<^verbatim>\<open>src/server.ts\<close> is a class \<^verbatim>\<open>UDPServer\<close> around a datagram socket.
  Its handlers work on the text of a datagram, on what \<^verbatim>\<open>JSON.parse\<close> makes of it and on
  readings of the clock. Text is a \<^typ>\<open>string\<close>, one \<^typ>\<open>char\<close> for each byte of
  its UTF-8 form. The values \<^verbatim>\<open>JSON.parse\<close> can return, and \<^verbatim>\<open>undefined\<close>, which a
  read of an absent property gives, are the type \<open>jsval\<close>. A JSON number is kept as the
  exact rational its text denotes.
\<close>

datatype jsval =
    Undefined
  | Null
  | Bool bool
  | Num rat
  | Str string
  | Arr "jsval list"
  | Obj "(string \<times> jsval) list"

datatype error = SyntaxError | TypeError | RangeError

text \<open>
  A \<^verbatim>\<open>number\<close> as \<^verbatim>\<open>parseFloat\<close> returns it. \<open>Finite r\<close> stands for the double nearest to
  the rational \<open>r\<close>.
\<close>

datatype number = NaN | Finite rat | PosInfinity | NegInfinity

subsection \<open>Decimal digits\<close>

definition is_digit :: "char \<Rightarrow> bool" where
  "is_digit c = (c \<in> set ''0123456789'')"

definition digit_value :: "char \<Rightarrow> nat" where
  "digit_value c = of_char c - 48"

definition digits_value :: "string \<Rightarrow> nat" where
  "digits_value ds = foldl (\<lambda>a c. 10 * a + digit_value c) 0 ds"

definition scale10 :: "rat \<Rightarrow> int \<Rightarrow> rat" where
  "scale10 m e = (if 0 \<le> e then m * 10 ^ nat e else m / 10 ^ nat (- e))"

fun show_nat :: "nat \<Rightarrow> string" where
  "show_nat n =
     (if n < 10 then [''0123456789'' ! n]
      else show_nat (n div 10) @ [''0123456789'' ! (n mod 10)])"

declare show_nat.simps [simp del]

definition show_int :: "int \<Rightarrow> string" where
  "show_int i = (if i < 0 then CHR ''-'' # show_nat (nat (- i)) else show_nat (nat i))"

subsection \<open>\<^verbatim>\<open>parseFloat\<close>\<close>

text \<open>
  \<^verbatim>\<open>parseFloat\<close> turns its argument into a string, drops leading white space and reads the
  longest prefix that is a decimal literal: an optional sign, then \<^verbatim>\<open>Infinity\<close> or digits
  with an optional fraction and an optional exponent. Text after that prefix is ignored;
  with no such prefix the result is \<^verbatim>\<open>NaN\<close>.

  \<open>ws_len\<close> is the length in bytes of the white-space character at the head of a text
  (tab, line feed, vertical tab, form feed, carriage return, space, U+00A0, U+1680,
  U+2000 to U+200A, U+2028, U+2029, U+202F, U+205F, U+3000, U+FEFF), or 0.
\<close>

definition ws_len :: "string \<Rightarrow> nat" where
  "ws_len s =
     (let b = map of_char (take 3 s) :: nat list in
      if take 1 b \<in> set [[9], [10], [11], [12], [13], [32]] then 1
      else if take 2 b = [194, 160] then 2
      else if b \<in> set ([[225, 154, 128], [226, 128, 168], [226, 128, 169], [226, 128, 175],
                          [226, 129, 159], [227, 128, 128], [239, 187, 191]]
                         @ map (\<lambda>k. [226, 128, k]) [128 ..< 139]) then 3
      else 0)"

fun trimStart :: "string \<Rightarrow> string" where
  "trimStart [] = []"
| "trimStart (c # cs) =
     (if ws_len (c # cs) = 0 then c # cs else trimStart (drop (ws_len (c # cs) - 1) cs))"

fun skip_sign :: "string \<Rightarrow> bool \<times> string" where
  "skip_sign [] = (False, [])"
| "skip_sign (c # cs) =
     (if c = CHR ''-'' then (True, cs) else if c = CHR ''+'' then (False, cs) else (False, c # cs))"

text \<open>The value of the exponent part at the head of a text, 0 when there is none.\<close>

fun exponent_prefix :: "string \<Rightarrow> int" where
  "exponent_prefix [] = 0"
| "exponent_prefix (c # cs) =
     (if c = CHR ''e'' \<or> c = CHR ''E'' then
        (case skip_sign cs of (neg, r) \<Rightarrow>
           (let ds = takeWhile is_digit r in
            if ds = [] then 0
            else if neg then - int (digits_value ds) else int (digits_value ds)))
      else 0)"

text \<open>The longest unsigned decimal literal at the head of a text, if there is one.\<close>

definition decimal_prefix :: "string \<Rightarrow> rat option" where
  "decimal_prefix s =
     (let ip = takeWhile is_digit s; r1 = dropWhile is_digit s in
      if r1 \<noteq> [] \<and> hd r1 = CHR ''.'' then
        (let fp = takeWhile is_digit (tl r1); r3 = dropWhile is_digit (tl r1) in
         if ip = [] \<and> fp = [] then None
         else Some (scale10 (of_nat (digits_value (ip @ fp)))
                            (exponent_prefix r3 - int (length fp))))
      else if ip = [] then None
      else Some (scale10 (of_nat (digits_value ip)) (exponent_prefix r1)))"

definition parseFloat_string :: "string \<Rightarrow> number" where
  "parseFloat_string s =
     (case skip_sign (trimStart s) of (neg, u) \<Rightarrow>
        if take 8 u = ''Infinity'' then (if neg then NegInfinity else PosInfinity)
        else (case decimal_prefix u of
                None \<Rightarrow> NaN
              | Some r \<Rightarrow> Finite (if neg then - r else r)))"

text \<open>
  Turning a value into a string raises \<^verbatim>\<open>TypeError\<close> for an object that has a property
  \<^verbatim>\<open>toString\<close> of its own (a parsed value is never a function, and the inherited
  \<^verbatim>\<open>valueOf\<close> returns the object), and for an array with such an element, which
  \<^verbatim>\<open>join\<close> converts in turn. Every other object reads \<^verbatim>\<open>[object Object]\<close>.
\<close>

fun ToString_throws :: "jsval \<Rightarrow> bool" where
  "ToString_throws (Obj ms) = (''toString'' \<in> fst ` set ms)"
| "ToString_throws (Arr vs) = list_ex ToString_throws vs"
| "ToString_throws _ = False"

text \<open>
  The number at the head of the string of a value. A number prints as the shortest text
  that reads back as the same double. An array prints its elements separated by commas,
  and a comma ends every literal, so that the number is the one at the head of the first
  element.
\<close>

fun number_prefix :: "jsval \<Rightarrow> number" where
  "number_prefix (Num r) = Finite r"
| "number_prefix (Str s) = parseFloat_string s"
| "number_prefix (Arr (v # vs)) = number_prefix v"
| "number_prefix _ = NaN"

definition parseFloat :: "jsval \<Rightarrow> error + number" where
  "parseFloat v = (if ToString_throws v then Inl TypeError else Inr (number_prefix v))"

text \<open>
  The test \<^verbatim>\<open>d > 0.1\<close> of \<^verbatim>\<open>handleJoystickData\<close>. It compares doubles. The literal is
  the double nearest to one tenth, \<open>7205759403792794 / 2 ^ 56\<close>; the next double is
  \<open>7205759403792795 / 2 ^ 56\<close>. A text is read as the double nearest to the rational \<open>r\<close>
  it denotes, a tie going to the even significand, which is that of the literal: so the
  double read is greater than the literal exactly when \<open>r\<close> is greater than the midpoint
  of the two. \<^verbatim>\<open>NaN\<close> compares false.
\<close>

definition threshold :: rat where
  "threshold = 14411518807585589 / 2 ^ 57"

fun gt_threshold :: "number \<Rightarrow> bool" where
  "gt_threshold NaN = False"
| "gt_threshold (Finite r) = (threshold < r)"
| "gt_threshold PosInfinity = True"
| "gt_threshold NegInfinity = False"

subsection \<open>Property reads and method calls\<close>

text \<open>
  \<open>get v k\<close> is the read \<^verbatim>\<open>v.k\<close>, for the names the handlers read (\<^verbatim>\<open>left\<close>, \<^verbatim>\<open>right\<close>,
  \<^verbatim>\<open>x\<close>, \<^verbatim>\<open>y\<close>, \<^verbatim>\<open>angle\<close>, \<^verbatim>\<open>distance\<close>), none of which a prototype defines: it raises
  on \<^verbatim>\<open>undefined\<close> and \<^verbatim>\<open>null\<close>, gives the property of an object that has it (the last
  one of that name in the text) and \<^verbatim>\<open>undefined\<close> otherwise.
\<close>

definition get :: "jsval \<Rightarrow> string \<Rightarrow> error + jsval" where
  "get v k =
     (case v of
        Undefined \<Rightarrow> Inl TypeError
      | Null \<Rightarrow> Inl TypeError
      | Obj ms \<Rightarrow> Inr (case map_of (rev ms) k of Some x \<Rightarrow> x | None \<Rightarrow> Undefined)
      | _ \<Rightarrow> Inr Undefined)"

fun path :: "jsval \<Rightarrow> string list \<Rightarrow> error + jsval" where
  "path v [] = Inr v"
| "path v (k # ks) = (case get v k of Inl e \<Rightarrow> Inl e | Inr w \<Rightarrow> path w ks)"

text \<open>
  The call \<^verbatim>\<open>v.padStart(6)\<close>: only a string has the method. The length of a string counts
  UTF-16 units: one for each byte that starts a character, one more for a character of
  four bytes.
\<close>

definition utf16_length :: "string \<Rightarrow> nat" where
  "utf16_length s =
     length (filter (\<lambda>c. of_char c < (128::nat) \<or> 192 \<le> (of_char c :: nat)) s)
     + length (filter (\<lambda>c. 240 \<le> (of_char c :: nat)) s)"

definition pad :: "nat \<Rightarrow> string \<Rightarrow> string" where
  "pad n s = replicate (n - utf16_length s) CHR '' '' @ s"

definition padStart :: "jsval \<Rightarrow> nat \<Rightarrow> error + string" where
  "padStart v n = (case v of Str s \<Rightarrow> Inr (pad n s) | _ \<Rightarrow> Inl TypeError)"

section \<open>\<^verbatim>\<open>JSON.parse\<close>\<close>

datatype token =
    LBrace | RBrace | LBracket | RBracket | Colon | Comma
  | TString string | TNumber rat | TTrue | TFalse | TNull

definition hex_value :: "char \<Rightarrow> nat option" where
  "hex_value c =
     (let n = of_char c :: nat in
      if 48 \<le> n \<and> n \<le> 57 then Some (n - 48)
      else if 65 \<le> n \<and> n \<le> 70 then Some (n - 55)
      else if 97 \<le> n \<and> n \<le> 102 then Some (n - 87)
      else None)"

text \<open>The code unit of \<^verbatim>\<open>uXXXX\<close> at the head of a text.\<close>

definition unicode_escape :: "string \<Rightarrow> nat option" where
  "unicode_escape s =
     (case s of
        u # a # b # c # d # _ \<Rightarrow>
          (if u = CHR ''u'' then
             (case (hex_value a, hex_value b, hex_value c, hex_value d) of
                (Some h3, Some h2, Some h1, Some h0) \<Rightarrow> Some (4096 * h3 + 256 * h2 + 16 * h1 + h0)
              | _ \<Rightarrow> None)
           else None)
      | _ \<Rightarrow> None)"

definition utf8 :: "nat \<Rightarrow> string" where
  "utf8 cp =
     map char_of
       (if cp < 128 then [cp]
        else if cp < 2048 then [192 + cp div 64, 128 + cp mod 64]
        else if cp < 65536 then [224 + cp div 4096, 128 + cp div 64 mod 64, 128 + cp mod 64]
        else [240 + cp div 262144, 128 + cp div 4096 mod 64, 128 + cp div 64 mod 64,
              128 + cp mod 64])"

text \<open>
  The escape after a backslash: the bytes it stands for and the number of characters it
  takes. Two escapes that form a surrogate pair are one character.
\<close>

definition unescape :: "string \<Rightarrow> (string \<times> nat) option" where
  "unescape s =
     (case s of
        [] \<Rightarrow> None
      | e # r \<Rightarrow>
          if e = CHR 0x22 then Some ([CHR 0x22], 1)
          else if e = CHR 0x5C then Some ([CHR 0x5C], 1)
          else if e = CHR ''/'' then Some (''/'', 1)
          else if e = CHR ''b'' then Some ([CHR 0x08], 1)
          else if e = CHR ''f'' then Some ([CHR 0x0C], 1)
          else if e = CHR ''n'' then Some ([CHR 0x0A], 1)
          else if e = CHR ''r'' then Some ([CHR 0x0D], 1)
          else if e = CHR ''t'' then Some ([CHR 0x09], 1)
          else
            (case unicode_escape s of
               None \<Rightarrow> None
             | Some hi \<Rightarrow>
                 (case (if 55296 \<le> hi \<and> hi < 56320 \<and> take 1 (drop 5 s) = [CHR 0x5C]
                        then unicode_escape (drop 6 s) else None) of
                    None \<Rightarrow> Some (utf8 hi, 5)
                  | Some lo \<Rightarrow>
                      if 56320 \<le> lo \<and> lo < 57344
                      then Some (utf8 (65536 + (hi - 55296) * 1024 + (lo - 56320)), 11)
                      else Some (utf8 hi, 5))))"

text \<open>
  The rest of a string literal after its opening quote: the string it denotes, and the
  text after the closing quote. Control characters must be escaped.
\<close>

fun lex_string :: "string \<Rightarrow> string \<Rightarrow> (string \<times> string) option" where
  "lex_string acc [] = None"
| "lex_string acc (c # cs) =
     (if c = CHR 0x22 then Some (rev acc, cs)
      else if c = CHR 0x5C then
        (case unescape cs of
           None \<Rightarrow> None
         | Some (bs, n) \<Rightarrow> lex_string (rev bs @ acc) (drop n cs))
      else if (of_char c :: nat) < 32 then None
      else lex_string (c # acc) cs)"

text \<open>
  A number literal at the head of a text: an optional minus, an integer part without a
  leading zero, an optional fraction and an optional exponent, each with a digit at least.
\<close>

definition lex_exponent :: "rat \<Rightarrow> int \<Rightarrow> string \<Rightarrow> (rat \<times> string) option" where
  "lex_exponent m shift r =
     (if r \<noteq> [] \<and> (hd r = CHR ''e'' \<or> hd r = CHR ''E'') then
        (case skip_sign (tl r) of (neg, r') \<Rightarrow>
           (let ds = takeWhile is_digit r' in
            if ds = [] then None
            else Some (scale10 m ((if neg then - int (digits_value ds) else int (digits_value ds))
                                  + shift),
                       dropWhile is_digit r')))
      else Some (scale10 m shift, r))"

definition lex_number :: "string \<Rightarrow> (rat \<times> string) option" where
  "lex_number s =
     (let neg = (take 1 s = ''-'');
          s1 = (if neg then drop 1 s else s);
          ip = takeWhile is_digit s1;
          r1 = dropWhile is_digit s1;
          sgn = (if neg then - 1 else 1 :: rat) in
      if ip = [] \<or> (1 < length ip \<and> hd ip = CHR ''0'') then None
      else if r1 \<noteq> [] \<and> hd r1 = CHR ''.'' then
        (let fp = takeWhile is_digit (tl r1); r3 = dropWhile is_digit (tl r1) in
         if fp = [] then None
         else lex_exponent (sgn * of_nat (digits_value (ip @ fp))) (- int (length fp)) r3)
      else lex_exponent (sgn * of_nat (digits_value ip)) 0 r1)"

function lex :: "string \<Rightarrow> token list option" where
  "lex [] = Some []"
| "lex (c # cs) =
     (if c \<in> set [CHR '' '', CHR 0x09, CHR 0x0A, CHR 0x0D] then lex cs
      else if c = CHR ''{'' then map_option (Cons LBrace) (lex cs)
      else if c = CHR ''}'' then map_option (Cons RBrace) (lex cs)
      else if c = CHR ''['' then map_option (Cons LBracket) (lex cs)
      else if c = CHR '']'' then map_option (Cons RBracket) (lex cs)
      else if c = CHR '':'' then map_option (Cons Colon) (lex cs)
      else if c = CHR '','' then map_option (Cons Comma) (lex cs)
      else if c = CHR 0x22 then
        (case lex_string [] cs of
           None \<Rightarrow> None
         | Some (s, rest) \<Rightarrow> map_option (Cons (TString s)) (lex rest))
      else if c = CHR ''-'' \<or> is_digit c then
        (case lex_number (c # cs) of
           None \<Rightarrow> None
         | Some (r, rest) \<Rightarrow> map_option (Cons (TNumber r)) (lex rest))
      else if take 4 (c # cs) = ''true'' then map_option (Cons TTrue) (lex (drop 3 cs))
      else if take 5 (c # cs) = ''false'' then map_option (Cons TFalse) (lex (drop 4 cs))
      else if take 4 (c # cs) = ''null'' then map_option (Cons TNull) (lex (drop 3 cs))
      else None)"
  by pat_completeness auto


lemma lex_string_shorter:
  "lex_string acc cs = Some (s, rest) \<Longrightarrow> length rest \<le> length cs"
proof (induction acc cs rule: lex_string.induct)
  case (1 acc)
  then show ?case by simp
next
  case (2 acc c cs)
  show ?case
  proof (cases "c = CHR 0x22")
    case True
    with "2.prems" show ?thesis by simp
  next
    case quote: False
    show ?thesis
    proof (cases "c = CHR 0x5C")
      case True
      with quote "2.prems" obtain bs n where
        u: "unescape cs = Some (bs, n)" and
        l: "lex_string (rev bs @ acc) (drop n cs) = Some (s, rest)"
        by (auto split: option.splits)
      from "2.IH"(1) [OF quote True u refl l] show ?thesis by simp
    next
      case False
      with quote "2.prems" have
        c: "\<not> (of_char c :: nat) < 32" and l: "lex_string (c # acc) cs = Some (s, rest)"
        by (auto split: if_splits)
      from "2.IH"(2) [OF quote False c l] show ?thesis by simp
    qed
  qed
qed

lemma lex_exponent_shorter:
  "lex_exponent m shift r = Some (v, rest) \<Longrightarrow> length rest \<le> length r"
proof -
  assume a: "lex_exponent m shift r = Some (v, rest)"
  have skip: "length (snd (skip_sign t)) \<le> length t" for t
    by (cases t) auto
  show ?thesis
  proof (cases "r \<noteq> [] \<and> (hd r = CHR ''e'' \<or> hd r = CHR ''E'')")
    case True
    with a have "rest = dropWhile is_digit (snd (skip_sign (tl r)))"
      by (auto simp: lex_exponent_def Let_def split: prod.splits if_splits)
    then have "length rest \<le> length (snd (skip_sign (tl r)))"
      by (simp add: length_dropWhile_le)
    also have "\<dots> \<le> length (tl r)" by (rule skip)
    also have "\<dots> \<le> length r" by simp
    finally show ?thesis .
  next
    case False
    with a show ?thesis by (auto simp: lex_exponent_def)
  qed
qed

lemma takeWhile_dropWhile_length:
  "length (takeWhile P xs) + length (dropWhile P xs) = length xs"
  by (induction xs) auto

lemma lex_number_shorter:
  assumes "lex_number s = Some (v, rest)"
  shows "length rest < length s"
proof -
  define s1 where "s1 = (if take 1 s = ''-'' then drop 1 s else s)"
  define ip where "ip = takeWhile is_digit s1"
  define r1 where "r1 = dropWhile is_digit s1"
  have s1: "length s1 \<le> length s" by (simp add: s1_def)
  have ip: "ip \<noteq> []"
    using assms by (auto simp: lex_number_def Let_def ip_def s1_def split: if_splits)
  have "length ip + length r1 = length s1"
    unfolding ip_def r1_def by (rule takeWhile_dropWhile_length)
  with ip have r1: "length r1 < length s1" by (cases ip) auto
  show ?thesis
  proof (cases "r1 \<noteq> [] \<and> hd r1 = CHR ''.''")
    case True
    with assms obtain m sh where
      e: "lex_exponent m sh (dropWhile is_digit (tl r1)) = Some (v, rest)"
      by (auto simp: lex_number_def Let_def r1_def s1_def split: if_splits)
    have "length rest \<le> length (dropWhile is_digit (tl r1))"
      by (rule lex_exponent_shorter [OF e])
    also have "\<dots> \<le> length (tl r1)" by (rule length_dropWhile_le)
    also have "\<dots> \<le> length r1" by simp
    finally show ?thesis using r1 s1 by simp
  next
    case False
    with assms obtain m sh where e: "lex_exponent m sh r1 = Some (v, rest)"
      by (auto simp: lex_number_def Let_def r1_def s1_def split: if_splits)
    from lex_exponent_shorter [OF e] r1 s1 show ?thesis by simp
  qed
qed

termination lex
proof (relation "measure length")
  fix c :: char and cs y :: string and x :: string and x2 :: "string \<times> string"
  assume "lex_string [] cs = Some x2" and "(x, y) = x2"
  then have "lex_string [] cs = Some (x, y)" by simp
  from lex_string_shorter [OF this] show "(y, c # cs) \<in> measure length" by simp
next
  fix c :: char and cs y :: string and x2 :: "rat \<times> string" and x :: rat
  assume "lex_number (c # cs) = Some x2" and "(x, y) = x2"
  then have "lex_number (c # cs) = Some (x, y)" by simp
  from lex_number_shorter [OF this] show "(y, c # cs) \<in> measure length" by simp
qed simp_all


text \<open>
  The parser reads the tokens from left to right with a stack of the containers that are
  open: an array with its elements so far, or an object with its members so far and the
  key whose value is being read (both latest first).
\<close>

datatype frame = InArray "jsval list" | InObject "(string \<times> jsval) list" string

datatype expect =
    Value            \<comment> \<open>a value must follow\<close>
  | ValueOrClose     \<comment> \<open>after an opening bracket\<close>
  | KeyOrClose       \<comment> \<open>after an opening brace\<close>
  | Key              \<comment> \<open>after a comma in an object\<close>
  | ColonNext        \<comment> \<open>after a key\<close>
  | CommaOrClose     \<comment> \<open>after a value in a container\<close>
  | Done jsval       \<comment> \<open>the text's value is complete\<close>

text \<open>A value is complete: it is the text's, or goes into the innermost open container.\<close>

fun put_value :: "jsval \<Rightarrow> frame list \<Rightarrow> expect \<times> frame list" where
  "put_value v [] = (Done v, [])"
| "put_value v (InArray vs # st) = (CommaOrClose, InArray (v # vs) # st)"
| "put_value v (InObject ms k # st) = (CommaOrClose, InObject ((k, v) # ms) k # st)"

fun scalar :: "token \<Rightarrow> jsval option" where
  "scalar (TString s) = Some (Str s)"
| "scalar (TNumber r) = Some (Num r)"
| "scalar TTrue = Some (Bool True)"
| "scalar TFalse = Some (Bool False)"
| "scalar TNull = Some Null"
| "scalar _ = None"

fun open_value :: "token \<Rightarrow> frame list \<Rightarrow> (expect \<times> frame list) option" where
  "open_value LBracket st = Some (ValueOrClose, InArray [] # st)"
| "open_value LBrace st = Some (KeyOrClose, InObject [] [] # st)"
| "open_value t st = map_option (\<lambda>v. put_value v st) (scalar t)"

fun step :: "expect \<times> frame list \<Rightarrow> token \<Rightarrow> (expect \<times> frame list) option" where
  "step (Value, st) t = open_value t st"
| "step (ValueOrClose, InArray vs # st) RBracket = Some (put_value (Arr (rev vs)) st)"
| "step (ValueOrClose, st) t = open_value t st"
| "step (KeyOrClose, InObject ms k # st) RBrace = Some (put_value (Obj (rev ms)) st)"
| "step (KeyOrClose, InObject ms k # st) (TString k') = Some (ColonNext, InObject ms k' # st)"
| "step (Key, InObject ms k # st) (TString k') = Some (ColonNext, InObject ms k' # st)"
| "step (ColonNext, st) Colon = Some (Value, st)"
| "step (CommaOrClose, InArray vs # st) Comma = Some (Value, InArray vs # st)"
| "step (CommaOrClose, InArray vs # st) RBracket = Some (put_value (Arr (rev vs)) st)"
| "step (CommaOrClose, InObject ms k # st) Comma = Some (Key, InObject ms k # st)"
| "step (CommaOrClose, InObject ms k # st) RBrace = Some (put_value (Obj (rev ms)) st)"
| "step _ _ = None"

fun parse_tokens :: "expect \<times> frame list \<Rightarrow> token list \<Rightarrow> jsval option" where
  "parse_tokens (Done v, st) [] = Some v"
| "parse_tokens _ [] = None"
| "parse_tokens c (t # ts) = (case step c t of None \<Rightarrow> None | Some c' \<Rightarrow> parse_tokens c' ts)"

definition JSON_parse :: "string \<Rightarrow> error + jsval" where
  "JSON_parse text =
     (case lex text of
        None \<Rightarrow> Inl SyntaxError
      | Some ts \<Rightarrow>
          (case parse_tokens (Value, []) ts of
             None \<Rightarrow> Inl SyntaxError
           | Some v \<Rightarrow> Inr v))"


section \<open>The server\<close>

subsection \<open>State, environment and effects\<close>

text \<open>
  The fields of \<^verbatim>\<open>UDPServer\<close>: the port, and the \<^verbatim>\<open>Map\<close> from a client's identity to the
  time it was last seen. A \<^verbatim>\<open>Map\<close> keeps one entry for a key, in the order of insertion,
  which is an association list with distinct keys. The socket is outside the model: what
  the server does to it is recorded as an event.
\<close>

record UDPServer =
  port :: nat
  clients :: "(string, int) alist"

text \<open>The sender of a datagram (\<^verbatim>\<open>RemoteInfo\<close>); \<open>rport\<close> is its field \<^verbatim>\<open>port\<close>.\<close>

datatype RemoteInfo = RemoteInfo (address: string) (rport: nat)

text \<open>
  What the clock returns during the handling of one datagram, read by read:
  \<^verbatim>\<open>Date.now()\<close> on receipt, \<^verbatim>\<open>toLocaleTimeString()\<close> in \<^verbatim>\<open>handleJoystickData\<close>,
  \<^verbatim>\<open>Date.now()\<close> for the acknowledgment, and \<^verbatim>\<open>toLocaleTimeString()\<close> in
  \<^verbatim>\<open>handleTextMessage\<close>.
\<close>

record clock =
  received_now :: int
  joystick_time :: string
  ack_now :: int
  text_time :: string

datatype axis = LEFT | RIGHT

text \<open>
  The lines the server writes to the console, one constructor for each statement that
  writes, with the values the statement puts into the line. Their layout is not modelled.
\<close>

datatype line =
    JoystickHeader string
  | From string nat
  | Rule
  | AxisTitle axis
  | AxisXY axis string string
  | AxisAngleDistance axis string jsval
  | TextHeader string
  | MessageLine string
  | ErrorProcessing error
  | ClientDisconnected string
  | StatsHeader
  | ActiveClients nat
  | PortLine nat
  | UptimeLine string
  | ConnectedClients
  | ClientLastSeen string int
  | Blank

datatype event =
    Console line
  | Send string nat string   \<comment> \<open>\<^verbatim>\<open>server.send\<close>: the message, the port, the address\<close>

text \<open>
  A statement writes events and then returns a value or raises an error. What was
  written before an error stays written.
\<close>

type_synonym 'a io = "event list \<times> (error + 'a)"

definition ret :: "'a \<Rightarrow> 'a io" where
  "ret x = ([], Inr x)"

definition lift :: "error + 'a \<Rightarrow> 'a io" where
  "lift r = ([], r)"

definition bind :: "'a io \<Rightarrow> ('a \<Rightarrow> 'b io) \<Rightarrow> 'b io" where
  "bind m f =
     (case m of
        (out, Inl e) \<Rightarrow> (out, Inl e)
      | (out, Inr x) \<Rightarrow> (case f x of (out', r) \<Rightarrow> (out @ out', r)))"

definition try_catch :: "'a io \<Rightarrow> (error \<Rightarrow> 'a io) \<Rightarrow> 'a io" where
  "try_catch m h =
     (case m of
        (out, Inl e) \<Rightarrow> (case h e of (out', r) \<Rightarrow> (out @ out', r))
      | (out, Inr x) \<Rightarrow> (out, Inr x))"

definition console :: "line \<Rightarrow> unit io" where
  "console l = ([Console l], Inr ())"

subsection \<open>The handlers\<close>

text \<open>
  \<^verbatim>\<open>sendResponse\<close> hands the message to the socket, for the port and address of the
  sender. \<^verbatim>\<open>server.send\<close> checks the port first and raises \<^verbatim>\<open>RangeError\<close> at once for a
  port that is 0 or above 65535; a datagram can come from port 0. For any other port the
  call returns, the socket being open while its listener runs, and the event records it.
  The send is asynchronous: a failure of the send itself comes back later, to a callback
  that only writes a line.
\<close>

definition port_accepted :: "nat \<Rightarrow> bool" where
  "port_accepted p = (0 < p \<and> p \<le> 65535)"

definition sendResponse :: "string \<Rightarrow> RemoteInfo \<Rightarrow> unit io" where
  "sendResponse message rinfo =
     (if port_accepted (rport rinfo)
      then ([Send message (rport rinfo) (address rinfo)], Inr ())
      else ([], Inl RangeError))"

text \<open>\<^verbatim>\<open>JSON.stringify({status: "received", timestamp: t})\<close>, for an integer \<open>t\<close>.\<close>

definition ack_json :: "int \<Rightarrow> string" where
  \<open>ack_json t = ''{"status":"received","timestamp":'' @ show_int t @ ''}''\<close>

text \<open>
  The block of \<^verbatim>\<open>handleJoystickData\<close> that writes one joystick, \<^verbatim>\<open>data.left\<close> or
  \<^verbatim>\<open>data.right\<close>. The arguments of a \<^verbatim>\<open>console.log\<close> are evaluated before it writes.
\<close>

definition log_axis :: "axis \<Rightarrow> string \<Rightarrow> jsval \<Rightarrow> unit io" where
  "log_axis a name data =
     bind (console (AxisTitle a)) (\<lambda>_.
     bind (lift (path data [name, ''x''])) (\<lambda>x.
     bind (lift (padStart x 6)) (\<lambda>xs.
     bind (lift (path data [name, ''y''])) (\<lambda>y.
     bind (lift (padStart y 6)) (\<lambda>ys.
     bind (console (AxisXY a xs ys)) (\<lambda>_.
     bind (lift (path data [name, ''angle''])) (\<lambda>ang.
     bind (lift (padStart ang 6)) (\<lambda>angs.
     bind (lift (path data [name, ''distance''])) (\<lambda>d.
     bind (lift (if ToString_throws d then Inl TypeError else Inr d)) (\<lambda>ds.
     console (AxisAngleDistance a angs ds)))))))))))"

definition handleJoystickData :: "clock \<Rightarrow> jsval \<Rightarrow> RemoteInfo \<Rightarrow> unit io" where
  "handleJoystickData clk data rinfo =
     bind (lift (path data [''left'', ''distance''])) (\<lambda>ld.
     bind (lift (parseFloat ld)) (\<lambda>leftDistance.
     bind (lift (path data [''right'', ''distance''])) (\<lambda>rd.
     bind (lift (parseFloat rd)) (\<lambda>rightDistance.
     if gt_threshold leftDistance \<or> gt_threshold rightDistance then
       bind (console (JoystickHeader (joystick_time clk))) (\<lambda>_.
       bind (console (From (address rinfo) (rport rinfo))) (\<lambda>_.
       bind (console Rule) (\<lambda>_.
       bind (if gt_threshold leftDistance then log_axis LEFT ''left'' data else ret ()) (\<lambda>_.
       bind (if gt_threshold rightDistance then log_axis RIGHT ''right'' data else ret ()) (\<lambda>_.
       sendResponse (ack_json (ack_now clk)) rinfo)))))
     else ret ()))))"

definition handleTextMessage :: "clock \<Rightarrow> string \<Rightarrow> RemoteInfo \<Rightarrow> unit io" where
  \<open>handleTextMessage clk message rinfo =
     bind (console (TextHeader (text_time clk))) (\<lambda>_.
     bind (console (From (address rinfo) (rport rinfo))) (\<lambda>_.
     bind (console (MessageLine message)) (\<lambda>_.
     bind (console Rule) (\<lambda>_.
     sendResponse (''Server received: "'' @ message @ ''" at '' @ text_time clk) rinfo))))\<close>

text \<open>
  The listener of \<^verbatim>\<open>message\<close> events, on the text \<^verbatim>\<open>msg.toString()\<close> of the datagram.
  It sets the sender's entry before the outer \<^verbatim>\<open>try\<close>. The inner \<^verbatim>\<open>try\<close> holds both
  \<^verbatim>\<open>JSON.parse\<close> and \<^verbatim>\<open>handleJoystickData\<close>, and its \<^verbatim>\<open>catch\<close> calls
  \<^verbatim>\<open>handleTextMessage\<close>; the outer \<^verbatim>\<open>catch\<close> writes the error.
\<close>

definition clientId :: "RemoteInfo \<Rightarrow> string" where
  "clientId rinfo = address rinfo @ '':'' @ show_nat (rport rinfo)"

definition on_message :: "clock \<Rightarrow> string \<Rightarrow> RemoteInfo \<Rightarrow> UDPServer \<Rightarrow> UDPServer \<times> unit io" where
  "on_message clk message rinfo srv =
     (srv\<lparr>clients := DAList.update (clientId rinfo) (received_now clk) (clients srv)\<rparr>,
      try_catch
        (try_catch
           (bind (lift (JSON_parse message)) (\<lambda>data. handleJoystickData clk data rinfo))
           (\<lambda>_. handleTextMessage clk message rinfo))
        (\<lambda>err. console (ErrorProcessing err)))"

text \<open>
  The server over a sequence of datagrams. An error that leaves a listener ends the
  process: the datagrams after it are not handled.
\<close>

fun listen :: "(clock \<times> string \<times> RemoteInfo) list \<Rightarrow> UDPServer \<Rightarrow> event list \<times> (error + UDPServer)" where
  "listen [] srv = ([], Inr srv)"
| "listen ((clk, message, rinfo) # rest) srv =
     (case on_message clk message rinfo srv of
        (srv', out, Inl e) \<Rightarrow> (out, Inl e)
      | (srv', out, Inr _) \<Rightarrow> (case listen rest srv' of (out', r) \<Rightarrow> (out @ out', r)))"

subsection \<open>The timers\<close>

text \<open>
  \<^verbatim>\<open>cleanupClients\<close>, every 30000 ms, with \<open>now\<close> the reading of the clock: the loop over
  the entries of the map, which deletes the entries it finds stale.
\<close>

definition timeout :: int where
  "timeout = 60000"

definition cleanup_period :: int where
  "cleanup_period = 30000"

fun cleanup_loop :: "int \<Rightarrow> (string \<times> int) list \<Rightarrow> (string, int) alist \<Rightarrow> (string, int) alist \<times> event list" where
  "cleanup_loop now [] cl = (cl, [])"
| "cleanup_loop now ((cid, lastSeen) # rest) cl =
     (if now - lastSeen > timeout
      then (case cleanup_loop now rest (DAList.delete cid cl) of
              (cl', out) \<Rightarrow> (cl', Console (ClientDisconnected cid) # out))
      else cleanup_loop now rest cl)"

definition cleanupClients :: "int \<Rightarrow> UDPServer \<Rightarrow> UDPServer \<times> event list" where
  "cleanupClients now srv =
     (case cleanup_loop now (DAList.impl_of (clients srv)) (clients srv) of
        (cl', out) \<Rightarrow> (srv\<lparr>clients := cl'\<rparr>, out))"

text \<open>
  \<^verbatim>\<open>getStats\<close>, every 60000 ms. \<open>uptime\<close> is the text of \<^verbatim>\<open>process.uptime().toFixed(0)\<close>
  and \<open>now_at i\<close> the reading of the clock in round \<open>i\<close> of the loop.
\<close>

fun stats_loop :: "(nat \<Rightarrow> int) \<Rightarrow> nat \<Rightarrow> (string \<times> int) list \<Rightarrow> event list" where
  "stats_loop now_at i [] = []"
| "stats_loop now_at i ((cid, lastSeen) # rest) =
     Console (ClientLastSeen cid ((now_at i - lastSeen) div 1000)) # stats_loop now_at (Suc i) rest"

definition getStats :: "(nat \<Rightarrow> int) \<Rightarrow> string \<Rightarrow> UDPServer \<Rightarrow> UDPServer \<times> event list" where
  "getStats now_at uptime srv =
     (srv,
      [Console StatsHeader, Console Rule, Console (ActiveClients (size (clients srv))),
       Console (PortLine (port srv)), Console (UptimeLine uptime), Console Rule]
      @ (if size (clients srv) > 0
         then Console ConnectedClients # stats_loop now_at 0 (DAList.impl_of (clients srv))
         else [])
      @ [Console Blank])"

text \<open>The entries of the map, as \<^verbatim>\<open>clients.entries()\<close> enumerates them.\<close>

definition snapshot :: "UDPServer \<Rightarrow> (string \<times> int) list" where
  "snapshot srv = DAList.impl_of (clients srv)"


text \<open>The constructor: the port given, and an empty map.\<close>

definition new_UDPServer :: "nat \<Rightarrow> UDPServer" where
  "new_UDPServer p = \<lparr>port = p, clients = DAList.empty\<rparr>"

text \<open>The cleanup timer firing at the readings \<open>nows\<close> of the clock, one after the other.\<close>

fun sweeps :: "int list \<Rightarrow> UDPServer \<Rightarrow> UDPServer" where
  "sweeps [] srv = srv"
| "sweeps (now # nows) srv = sweeps nows (fst (cleanupClients now srv))"

section \<open>Vocabulary of the properties\<close>

text \<open>
  The interface \<^verbatim>\<open>JoystickData\<close> of the source: \<^verbatim>\<open>left\<close> and \<^verbatim>\<open>right\<close>, each with the strings
  \<^verbatim>\<open>x\<close>, \<^verbatim>\<open>y\<close>, \<^verbatim>\<open>angle\<close> and \<^verbatim>\<open>distance\<close>. The compiler checks it, the running server
  does not.
\<close>

definition string_at :: "jsval \<Rightarrow> string list \<Rightarrow> string option" where
  "string_at v ks = (case path v ks of Inr (Str s) \<Rightarrow> Some s | _ \<Rightarrow> None)"

definition is_JoystickData :: "jsval \<Rightarrow> bool" where
  "is_JoystickData data =
     list_all (\<lambda>ks. string_at data ks \<noteq> None)
       [[''left'', ''x''], [''left'', ''y''], [''left'', ''angle''], [''left'', ''distance''],
        [''right'', ''x''], [''right'', ''y''], [''right'', ''angle''], [''right'', ''distance'']]"

text \<open>The number \<^verbatim>\<open>parseFloat\<close> reads from the distance of an axis.\<close>

definition axis_distance :: "jsval \<Rightarrow> string \<Rightarrow> number" where
  "axis_distance data name =
     (case path data [name, ''distance''] of Inr d \<Rightarrow> number_prefix d | Inl _ \<Rightarrow> NaN)"

text \<open>A number that is at most the literal \<^verbatim>\<open>0.1\<close>: \<^verbatim>\<open>NaN\<close> is not.\<close>

fun le_threshold :: "number \<Rightarrow> bool" where
  "le_threshold NaN = False"
| "le_threshold (Finite r) = (r \<le> threshold)"
| "le_threshold PosInfinity = False"
| "le_threshold NegInfinity = True"

text \<open>
  A parsed value lacks an axis: the read of the property raises (the value is \<^verbatim>\<open>null\<close>),
  or gives \<^verbatim>\<open>undefined\<close> or \<^verbatim>\<open>null\<close>.
\<close>

definition lacks :: "jsval \<Rightarrow> string \<Rightarrow> bool" where
  "lacks data k =
     (case get data k of
        Inl _ \<Rightarrow> True
      | Inr Undefined \<Rightarrow> True
      | Inr Null \<Rightarrow> True
      | Inr _ \<Rightarrow> False)"

text \<open>The acknowledgments among the events: message, port and address of each send.\<close>

fun sends :: "event list \<Rightarrow> (string \<times> nat \<times> string) list" where
  "sends [] = []"
| "sends (Send m p a # es) = (m, p, a) # sends es"
| "sends (Console l # es) = sends es"

text \<open>The clients the statistics report names, in the order of the report.\<close>

fun reported :: "event list \<Rightarrow> string list" where
  "reported [] = []"
| "reported (Console (ClientLastSeen cid age) # es) = cid # reported es"
| "reported (e # es) = reported es"

text \<open>
  Follows the specification: a decimal number as text, which is an optional sign, digits,
  and an optional fraction of a dot and digits, and nothing else.
\<close>

definition spec_decimal_number :: "string \<Rightarrow> bool" where
  "spec_decimal_number s =
     (let u = snd (skip_sign s); ip = takeWhile is_digit u; r = dropWhile is_digit u in
      ip \<noteq> [] \<and> (r = [] \<or> (hd r = CHR ''.'' \<and> tl r \<noteq> [] \<and> list_all is_digit (tl r))))"

text \<open>
  A text begins with a number, as \<^verbatim>\<open>parseFloat\<close> sees it: after white space and an
  optional sign comes \<^verbatim>\<open>Infinity\<close>, a digit, or a dot and a digit.
\<close>

definition numeric_head :: "string \<Rightarrow> bool" where
  "numeric_head s =
     (let u = snd (skip_sign (trimStart s)) in
      take 8 u = ''Infinity''
      \<or> list_ex is_digit (take 1 u)
      \<or> (take 1 u = ''.'' \<and> list_ex is_digit (take 1 (drop 1 u))))"

subsection \<open>Examples\<close>

text \<open>The control frames of the specification's scenarios 1 and 2, a clock and a sender.\<close>

definition scenario1 :: string where
  \<open>scenario1 = ''{"left":{"x":"0","y":"0","angle":"0","distance":"0.0"},"right":{"x":"0","y":"0","angle":"0","distance":"0.0"}}''\<close>

definition scenario2 :: string where
  \<open>scenario2 = ''{"left":{"x":"50","y":"0","angle":"0","distance":"0.5"},"right":{"x":"0","y":"0","angle":"0","distance":"0.0"}}''\<close>

definition frame :: "string \<Rightarrow> string \<Rightarrow> string \<Rightarrow> jsval" where
  "frame lx ld rd =
     Obj [(''left'', Obj [(''x'', Str lx), (''y'', Str ''0''), (''angle'', Str ''0''),
                          (''distance'', Str ld)]),
          (''right'', Obj [(''x'', Str ''0''), (''y'', Str ''0''), (''angle'', Str ''0''),
                           (''distance'', Str rd)])]"

definition example_clock :: clock where
  "example_clock =
     \<lparr>received_now = 1000, joystick_time = ''10:00:00 AM'', ack_now = 1001,
      text_time = ''10:00:01 AM''\<rparr>"

definition example_sender :: RemoteInfo where
  "example_sender = RemoteInfo ''10.0.0.7'' 5000"

definition port_zero_sender :: RemoteInfo where
  "port_zero_sender = RemoteInfo ''10.0.0.7'' 0"

text \<open>More texts: one with axes that have no fields, one with no axis, one with the left
  axis only, one whose left \<^verbatim>\<open>x\<close> is a number, one whose left distance has text after its
  number.\<close>

definition empty_axes :: string where
  \<open>empty_axes = ''{"left":{},"right":{}}''\<close>

definition no_axis :: string where
  \<open>no_axis = ''{"foo":1}''\<close>

definition left_only :: string where
  \<open>left_only = ''{"left":{"x":"50","y":"0","angle":"0","distance":"0.5"}}''\<close>

definition numeric_x :: string where
  \<open>numeric_x = ''{"left":{"x":1,"y":"0","angle":"0","distance":"0.5"},"right":{"x":"0","y":"0","angle":"0","distance":"0.0"}}''\<close>

definition trailing_text :: string where
  \<open>trailing_text = ''{"left":{"x":"0","y":"0","angle":"0","distance":"0.5abc"},"right":{"x":"0","y":"0","angle":"0","distance":"0.0"}}''\<close>

section \<open>The handlers, case by case\<close>

declare path.simps [simp del]

lemma string_at_Some: "string_at v ks = Some s \<longleftrightarrow> path v ks = Inr (Str s)"
  by (auto simp: string_at_def split: sum.splits jsval.splits)

lemma sends_append: "sends (xs @ ys) = sends xs @ sends ys"
  by (induction xs rule: sends.induct) auto

lemma snd_bind: "snd (bind m f) = (case snd m of Inl e \<Rightarrow> Inl e | Inr x \<Rightarrow> snd (f x))"
  by (simp add: bind_def split: prod.splits sum.splits)

lemma sends_bind:
  "sends (fst (bind m f)) =
     sends (fst m) @ (case snd m of Inl e \<Rightarrow> [] | Inr x \<Rightarrow> sends (fst (f x)))"
  by (simp add: bind_def sends_append split: prod.splits sum.splits)

lemma log_axis_strings:
  assumes "path data [name, ''x''] = Inr (Str x)" and "path data [name, ''y''] = Inr (Str y)"
    and "path data [name, ''angle''] = Inr (Str ang)"
    and "path data [name, ''distance''] = Inr (Str d)"
  shows "log_axis a name data =
     ([Console (AxisTitle a), Console (AxisXY a (pad 6 x) (pad 6 y)),
       Console (AxisAngleDistance a (pad 6 ang) (Str d))], Inr ())"
  unfolding log_axis_def using assms
  by (simp add: bind_def lift_def console_def padStart_def)

lemma sends_log_axis: "sends (fst (log_axis a name data)) = []"
  unfolding log_axis_def
  by (simp add: sends_bind lift_def console_def split: sum.splits)

text \<open>
  A frame of the interface: nothing when no distance is significant; otherwise the lines,
  and then the send, which the socket takes or refuses.
\<close>

lemma handleJoystickData_frame:
  assumes "is_JoystickData data"
  shows "handleJoystickData clk data rinfo =
     (let logs = [Console (JoystickHeader (joystick_time clk)),
                  Console (From (address rinfo) (rport rinfo)), Console Rule]
                 @ (if gt_threshold (axis_distance data ''left'')
                    then fst (log_axis LEFT ''left'' data) else [])
                 @ (if gt_threshold (axis_distance data ''right'')
                    then fst (log_axis RIGHT ''right'' data) else [])
      in if gt_threshold (axis_distance data ''left'') \<or> gt_threshold (axis_distance data ''right'')
         then (if port_accepted (rport rinfo)
               then (logs @ [Send (ack_json (ack_now clk)) (rport rinfo) (address rinfo)], Inr ())
               else (logs, Inl RangeError))
         else ([], Inr ()))"
proof -
  from assms obtain lx ly la ld rx ry ra rd where
    l: "path data [''left'', ''x''] = Inr (Str lx)" "path data [''left'', ''y''] = Inr (Str ly)"
       "path data [''left'', ''angle''] = Inr (Str la)"
       "path data [''left'', ''distance''] = Inr (Str ld)"
    and r: "path data [''right'', ''x''] = Inr (Str rx)" "path data [''right'', ''y''] = Inr (Str ry)"
       "path data [''right'', ''angle''] = Inr (Str ra)"
       "path data [''right'', ''distance''] = Inr (Str rd)"
    unfolding is_JoystickData_def by (auto simp: string_at_Some)
  note la = log_axis_strings [OF l] and ra = log_axis_strings [OF r]
  have dl: "axis_distance data ''left'' = parseFloat_string ld"
    and dr: "axis_distance data ''right'' = parseFloat_string rd"
    using l(4) r(4) by (simp_all add: axis_distance_def)
  show ?thesis
    unfolding handleJoystickData_def dl dr Let_def
    using l(4) r(4)
    by (cases "gt_threshold (parseFloat_string ld)"; cases "gt_threshold (parseFloat_string rd)";
        cases "port_accepted (rport rinfo)")
       (simp_all add: la ra bind_def lift_def console_def parseFloat_def sendResponse_def ret_def)
qed

text \<open>The send is the last statement of the handler: when it raises, nothing was sent.\<close>

lemma handleJoystickData_raised_sends:
  assumes "snd (handleJoystickData clk data rinfo) = Inl e"
  shows "sends (fst (handleJoystickData clk data rinfo)) = []"
  using assms unfolding handleJoystickData_def
  by (auto simp: sends_bind snd_bind sends_log_axis lift_def console_def ret_def
      sendResponse_def split: sum.splits if_splits)

lemma path_error: "path v ks = Inl e \<Longrightarrow> e = TypeError"
  by (induction ks arbitrary: v)
     (auto simp: path.simps get_def split: sum.splits jsval.splits)

text \<open>A value that lacks an axis: the read of its distance raises before anything is written.\<close>

lemma handleJoystickData_lacks:
  assumes "lacks data ''left'' \<or> lacks data ''right''"
  shows "handleJoystickData clk data rinfo = ([], Inl TypeError)"
proof -
  have raise: "path data [k, ''distance''] = Inl TypeError" if "lacks data k" for k
    using that
    by (auto simp: lacks_def path.simps get_def split: sum.splits jsval.splits)
  show ?thesis
  proof (cases "lacks data ''left''")
    case True
    then show ?thesis
      unfolding handleJoystickData_def by (simp add: raise bind_def lift_def)
  next
    case False
    with assms have "lacks data ''right''" by simp
    then show ?thesis
      unfolding handleJoystickData_def
      by (auto simp: raise bind_def lift_def parseFloat_def split: sum.splits prod.splits
            dest: path_error)
  qed
qed

lemma handleTextMessage_events:
  \<open>handleTextMessage clk message rinfo =
     (let logs = [Console (TextHeader (text_time clk)),
                  Console (From (address rinfo) (rport rinfo)),
                  Console (MessageLine message), Console Rule]
      in if port_accepted (rport rinfo)
         then (logs @ [Send (''Server received: "'' @ message @ ''" at '' @ text_time clk)
                         (rport rinfo) (address rinfo)], Inr ())
         else (logs, Inl RangeError))\<close>
  by (simp add: handleTextMessage_def bind_def console_def sendResponse_def)

text \<open>The text handler under the outer \<^verbatim>\<open>catch\<close>: the echo goes out, or the error is written.\<close>

lemma text_fallback:
  \<open>try_catch (handleTextMessage clk message rinfo) (\<lambda>err. console (ErrorProcessing err)) =
     ([Console (TextHeader (text_time clk)), Console (From (address rinfo) (rport rinfo)),
       Console (MessageLine message), Console Rule,
       if port_accepted (rport rinfo)
       then Send (''Server received: "'' @ message @ ''" at '' @ text_time clk)
              (rport rinfo) (address rinfo)
       else Console (ErrorProcessing RangeError)], Inr ())\<close>
  by (simp add: handleTextMessage_events try_catch_def console_def)

text \<open>The listener, by what the inner \<^verbatim>\<open>try\<close> does.\<close>

lemma on_message_state:
  "fst (on_message clk message rinfo srv) =
     srv\<lparr>clients := DAList.update (clientId rinfo) (received_now clk) (clients srv)\<rparr>"
  by (simp add: on_message_def)

lemma on_message_syntax_error:
  assumes "JSON_parse message = Inl e"
  shows "snd (on_message clk message rinfo srv) =
           try_catch (handleTextMessage clk message rinfo) (\<lambda>err. console (ErrorProcessing err))"
  using assms
  by (simp add: on_message_def bind_def lift_def try_catch_def [of "([], Inl e)"])

lemma on_message_raised:
  assumes "JSON_parse message = Inr data" and "handleJoystickData clk data rinfo = (out, Inl e)"
  shows "snd (on_message clk message rinfo srv) =
           (out @ fst (try_catch (handleTextMessage clk message rinfo)
                         (\<lambda>err. console (ErrorProcessing err))), Inr ())"
  using assms
  by (simp add: on_message_def try_catch_def bind_def lift_def handleTextMessage_events
      console_def Let_def)

lemma on_message_returned:
  assumes "JSON_parse message = Inr data" and "handleJoystickData clk data rinfo = (out, Inr u)"
  shows "snd (on_message clk message rinfo srv) = (out, Inr ())"
  using assms
  by (simp add: on_message_def try_catch_def bind_def lift_def)

lemma try_catch_contains:
  "snd (try_catch (try_catch m (\<lambda>_. t)) (\<lambda>err. console (ErrorProcessing err))) = Inr ()"
  by (cases m; cases t) (auto simp: try_catch_def console_def split: sum.splits)

lemma on_message_returns: "\<exists>out. snd (on_message clk message rinfo srv) = (out, Inr ())"
proof -
  have "snd (snd (on_message clk message rinfo srv)) = Inr ()"
    by (simp add: on_message_def try_catch_contains)
  then show ?thesis
    by (metis prod.collapse)
qed

lemma listen_Cons:
  "listen ((clk, message, rinfo) # rest) srv =
     (case listen rest (fst (on_message clk message rinfo srv)) of
        (out', r) \<Rightarrow> (fst (snd (on_message clk message rinfo srv)) @ out', r))"
proof -
  obtain out where "snd (on_message clk message rinfo srv) = (out, Inr ())"
    using on_message_returns by blast
  then have "snd (snd (on_message clk message rinfo srv)) = Inr ()"
    by simp
  then show ?thesis
    by (simp add: case_prod_beta)
qed

lemma listen_returns:
  "snd (listen ds srv) =
     Inr (srv\<lparr>clients :=
            foldl (\<lambda>cl (clk, message, rinfo). DAList.update (clientId rinfo) (received_now clk) cl)
              (clients srv) ds\<rparr>)"
proof (induction ds arbitrary: srv)
  case Nil
  show ?case by simp
next
  case (Cons d ds)
  obtain clk message rinfo where d: "d = (clk, message, rinfo)" by (cases d)
  show ?case
    unfolding d listen_Cons
    by (simp add: case_prod_beta Cons.IH on_message_state)
qed

section \<open>The acknowledgment is JSON\<close>

lemma digit_char: "d < 10 \<Longrightarrow> is_digit (''0123456789'' ! d) \<and> digit_value (''0123456789'' ! d) = d"
proof -
  assume "d < 10"
  then have "d \<in> {0, 1, 2, 3, 4, 5, 6, 7, 8, 9}" by auto
  then show ?thesis
    by (auto simp: is_digit_def digit_value_def)
qed

lemma show_nat_digits: "list_all is_digit (show_nat n)"
proof (induction n rule: show_nat.induct)
  case (1 n)
  show ?case
  proof (cases "n < 10")
    case True
    then show ?thesis
      using digit_char [of n] by (subst show_nat.simps) simp
  next
    case False
    with "1.IH" digit_char [of "n mod 10"] show ?thesis
      by (subst show_nat.simps) simp
  qed
qed

lemma show_nat_nonempty: "show_nat n \<noteq> []"
  by (subst show_nat.simps) simp

lemma digits_value_snoc: "digits_value (ds @ [c]) = 10 * digits_value ds + digit_value c"
  by (simp add: digits_value_def)

lemma show_nat_value: "digits_value (show_nat n) = n"
proof (induction n rule: show_nat.induct)
  case (1 n)
  show ?case
  proof (cases "n < 10")
    case True
    then show ?thesis
      using digit_char [of n] by (subst show_nat.simps) (simp add: digits_value_def)
  next
    case False
    with "1.IH" digit_char [of "n mod 10"] show ?thesis
      by (subst show_nat.simps) (simp add: digits_value_snoc)
  qed
qed

lemma show_nat_hd: "hd (show_nat n) = CHR ''0'' \<Longrightarrow> length (show_nat n) = 1"
proof (induction n rule: show_nat.induct)
  case (1 n)
  show ?case
  proof (cases "n < 10")
    case True
    then show ?thesis by (subst show_nat.simps) simp
  next
    case False
    then have big: "\<not> n div 10 < 10 \<or> (0 < n div 10 \<and> n div 10 < 10)" by auto
    have eq: "show_nat n = show_nat (n div 10) @ [''0123456789'' ! (n mod 10)]"
      using False by (subst show_nat.simps) simp
    have hd: "hd (show_nat (n div 10)) = CHR ''0''"
      using "1.prems" show_nat_nonempty [of "n div 10"] by (simp add: eq)
    from "1.IH" [OF False hd] have one: "length (show_nat (n div 10)) = 1" .
    have "n div 10 < 10"
    proof (rule ccontr)
      assume "\<not> n div 10 < 10"
      then have "show_nat (n div 10) = show_nat (n div 10 div 10) @ [''0123456789'' ! (n div 10 mod 10)]"
        by (subst show_nat.simps) simp
      with one show_nat_nonempty [of "n div 10 div 10"] show False by simp
    qed
    moreover have "0 < n div 10" using False by auto
    ultimately have "n div 10 \<in> {1, 2, 3, 4, 5, 6, 7, 8, 9}" by auto
    then have "hd (show_nat (n div 10)) \<noteq> CHR ''0''"
      by (subst show_nat.simps) auto
    with hd show ?thesis by simp
  qed
qed

lemma lex_number_show_nat:
  "lex_number (show_nat n @ ''}'') = Some (of_nat n, ''}'')"
proof -
  have all: "\<forall>c\<in>set (show_nat n). is_digit c"
    using show_nat_digits [of n] by (simp add: list_all_iff)
  have stop: "\<not> is_digit CHR ''}''" by (simp add: is_digit_def)
  have tw: "takeWhile is_digit (show_nat n @ ''}'') = show_nat n"
    using all stop by (simp add: takeWhile_append2)
  have dw: "dropWhile is_digit (show_nat n @ ''}'') = ''}''"
    using all stop by (simp add: dropWhile_append2)
  obtain c cs where cs: "show_nat n = c # cs"
    using show_nat_nonempty [of n] by (cases "show_nat n") auto
  have c: "is_digit c" using all cs by simp
  then have nominus: "c \<noteq> CHR ''-''" by (auto simp: is_digit_def)
  have lead: "\<not> (1 < length (show_nat n) \<and> hd (show_nat n) = CHR ''0'')"
    using show_nat_hd [of n] by auto
  have t1: "take 1 (show_nat n @ ''}'') \<noteq> ''-''"
    using nominus by (simp add: cs)
  show ?thesis
    unfolding lex_number_def Let_def
    using t1 lead show_nat_nonempty [of n]
    by (simp add: tw dw lex_exponent_def scale10_def show_nat_value)
qed

lemma lex_number_show_int:
  "lex_number (show_int t @ ''}'') = Some (of_int t, ''}'')"
proof (cases "t < 0")
  case False
  then show ?thesis
    using lex_number_show_nat [of "nat t"] by (simp add: show_int_def)
next
  case True
  have all: "\<forall>c\<in>set (show_nat (nat (- t))). is_digit c"
    using show_nat_digits [of "nat (- t)"] by (simp add: list_all_iff)
  have stop: "\<not> is_digit CHR ''}''" by (simp add: is_digit_def)
  have tw: "takeWhile is_digit (show_nat (nat (- t)) @ ''}'') = show_nat (nat (- t))"
    using all stop by (simp add: takeWhile_append2)
  have dw: "dropWhile is_digit (show_nat (nat (- t)) @ ''}'') = ''}''"
    using all stop by (simp add: dropWhile_append2)
  have lead: "\<not> (1 < length (show_nat (nat (- t))) \<and> hd (show_nat (nat (- t))) = CHR ''0'')"
    using show_nat_hd [of "nat (- t)"] by auto
  have v: "(of_nat (nat (- t)) :: rat) = - of_int t"
    using True by simp
  show ?thesis
    unfolding lex_number_def Let_def show_int_def
    using True lead show_nat_nonempty [of "nat (- t)"]
    by (simp add: tw dw lex_exponent_def scale10_def show_nat_value v)
qed

lemma lex_show_int:
  "lex (show_int t @ ''}'') = Some [TNumber (of_int t), RBrace]"
proof -
  obtain c cs where cs: "show_int t @ ''}'' = c # cs" and c: "c = CHR ''-'' \<or> is_digit c"
  proof (cases "t < 0")
    case True
    then have "show_int t @ ''}'' = CHR ''-'' # (show_nat (nat (- t)) @ ''}'')"
      by (simp add: show_int_def)
    with that show ?thesis by blast
  next
    case False
    obtain d ds where ds: "show_nat (nat t) = d # ds"
      using show_nat_nonempty [of "nat t"] by (cases "show_nat (nat t)") auto
    have "is_digit d"
      using show_nat_digits [of "nat t"] by (simp add: ds)
    moreover have "show_int t @ ''}'' = d # (ds @ ''}'')"
      using False by (simp add: show_int_def ds)
    ultimately show ?thesis using that by blast
  qed
  have n: "lex_number (c # cs) = Some (of_int t, ''}'')"
    using lex_number_show_int [of t] by (simp add: cs)
  have "lex (c # cs) = Some [TNumber (of_int t), RBrace]"
    using c n by (auto simp: is_digit_def)
  then show ?thesis by (simp add: cs)
qed

lemma ack_json_parses:
  "JSON_parse (ack_json t) =
     Inr (Obj [(''status'', Str ''received''), (''timestamp'', Num (of_int t))])"
  by (simp add: JSON_parse_def ack_json_def lex_show_int)

section \<open>The registry\<close>

lemma in_snapshot_iff:
  "(k, t) \<in> set (snapshot srv) \<longleftrightarrow> DAList.lookup (clients srv) k = Some t"
  by (simp add: snapshot_def DAList.lookup.rep_eq)

lemma key_in_snapshot_iff:
  "k \<in> fst ` set (snapshot srv) \<longleftrightarrow> DAList.lookup (clients srv) k \<noteq> None"
  by (simp add: snapshot_def DAList.lookup.rep_eq map_of_eq_None_iff)

lemma cleanup_loop_lookup:
  "DAList.lookup (fst (cleanup_loop now es cl)) k =
     (if \<exists>t. (k, t) \<in> set es \<and> now - t > timeout then None else DAList.lookup cl k)"
  by (induction es arbitrary: cl) (auto simp: case_prod_beta)

lemma cleanup_loop_events:
  "Console (ClientDisconnected k) \<in> set (snd (cleanup_loop now es cl)) \<longleftrightarrow>
     (\<exists>t. (k, t) \<in> set es \<and> now - t > timeout)"
  by (induction es arbitrary: cl) (auto simp: case_prod_beta split: if_splits)

lemma cleanupClients_lookup:
  "DAList.lookup (clients (fst (cleanupClients now srv))) k =
     (case DAList.lookup (clients srv) k of
        None \<Rightarrow> None
      | Some t \<Rightarrow> if now - t > timeout then None else Some t)"
proof -
  have "(\<exists>t. (k, t) \<in> set (DAList.impl_of (clients srv)) \<and> now - t > timeout) \<longleftrightarrow>
        (\<exists>t. DAList.lookup (clients srv) k = Some t \<and> now - t > timeout)"
    by (simp add: DAList.lookup.rep_eq)
  then show ?thesis
    by (auto simp: cleanupClients_def case_prod_beta cleanup_loop_lookup split: option.splits)
qed

lemma cleanupClients_events:
  "Console (ClientDisconnected k) \<in> set (snd (cleanupClients now srv)) \<longleftrightarrow>
     (\<exists>t. DAList.lookup (clients srv) k = Some t \<and> now - t > timeout)"
  by (simp add: cleanupClients_def case_prod_beta cleanup_loop_events DAList.lookup.rep_eq)

lemma sweeps_keep:
  assumes "list_all (\<lambda>now. now \<le> t + timeout) nows"
    and "DAList.lookup (clients srv) k = Some t"
  shows "DAList.lookup (clients (sweeps nows srv)) k = Some t"
  using assms
proof (induction nows arbitrary: srv)
  case Nil
  then show ?case by simp
next
  case (Cons now nows)
  from Cons.prems have "DAList.lookup (clients (fst (cleanupClients now srv))) k = Some t"
    by (simp add: cleanupClients_lookup)
  with Cons show ?case by simp
qed

lemma size_update:
  "size (DAList.update k v cl) =
     (if k \<in> fst ` set (DAList.impl_of cl) then size cl else size cl + 1)"
proof -
  have "length (map fst (AList.update k v (DAList.impl_of cl))) =
        (if k \<in> fst ` set (DAList.impl_of cl) then length (DAList.impl_of cl)
         else length (DAList.impl_of cl) + 1)"
    by (simp add: update_keys)
  then show ?thesis
    by (simp add: size_alist_def DAList.update.rep_eq)
qed

lemma reported_append: "reported (xs @ ys) = reported xs @ reported ys"
  by (induction xs rule: reported.induct) auto

lemma stats_loop_reported: "reported (stats_loop now_at i es) = map fst es"
  by (induction es arbitrary: i) auto

text \<open>
  C4. A client touched at \<open>t0\<close> is in the snapshot; it stays through every sweep up to
  \<open>t0 + timeout\<close>, so through one 29 seconds after the touch; a sweep later than
  \<open>t0 + timeout\<close> removes it, with a line that says so, and the snapshot after that sweep
  does not have it. The timeout is 60 seconds and the period of the sweep 30.
\<close>

theorem registry_round_trip:
  "(let srv' = fst (on_message clk message rinfo srv);
        cid = clientId rinfo;
        t0 = received_now clk
    in (cid, t0) \<in> set (snapshot srv')
     \<and> (list_all (\<lambda>now. now \<le> t0 + timeout) nows \<longrightarrow>
          (cid, t0) \<in> set (snapshot (sweeps nows srv')))
     \<and> (list_all (\<lambda>now. now \<le> t0 + timeout) nows \<and> t0 + timeout < now \<longrightarrow>
          cid \<notin> fst ` set (snapshot (fst (cleanupClients now (sweeps nows srv'))))
          \<and> Console (ClientDisconnected cid)
              \<in> set (snd (cleanupClients now (sweeps nows srv'))))
     \<and> (cid, t0) \<in> set (snapshot (fst (cleanupClients (t0 + 29 * 1000) srv'))))
   \<and> timeout = 60 * 1000 \<and> cleanup_period = 30 * 1000"
proof -
  define srv' where "srv' = fst (on_message clk message rinfo srv)"
  define cid where "cid = clientId rinfo"
  define t0 where "t0 = received_now clk"
  have touched: "DAList.lookup (clients srv') cid = Some t0"
    by (simp add: srv'_def cid_def t0_def on_message_state)
  have kept: "DAList.lookup (clients (sweeps nows srv')) cid = Some t0"
    if "list_all (\<lambda>now. now \<le> t0 + timeout) nows"
    using that touched by (rule sweeps_keep)
  have removed: "DAList.lookup (clients (fst (cleanupClients now (sweeps nows srv')))) cid = None"
    if "list_all (\<lambda>now. now \<le> t0 + timeout) nows" and "t0 + timeout < now"
    using kept [OF that(1)] that(2) by (simp add: cleanupClients_lookup)
  have logged: "Console (ClientDisconnected cid) \<in> set (snd (cleanupClients now (sweeps nows srv')))"
    if "list_all (\<lambda>now. now \<le> t0 + timeout) nows" and "t0 + timeout < now"
    using kept [OF that(1)] that(2) by (simp add: cleanupClients_events)
  have early: "DAList.lookup (clients (fst (cleanupClients (t0 + 29 * 1000) srv'))) cid = Some t0"
    using touched by (simp add: cleanupClients_lookup timeout_def)
  show ?thesis
    unfolding Let_def srv'_def [symmetric] cid_def [symmetric] t0_def [symmetric]
    using touched kept removed logged early
    by (simp add: in_snapshot_iff key_in_snapshot_iff timeout_def cleanup_period_def)
qed


theorem registry_round_trip_witness:
  "(''10.0.0.7:5000'', 0)
     \<in> set (snapshot (fst (on_message (example_clock\<lparr>received_now := 0\<rparr>) ''hello''
                              example_sender (new_UDPServer 8080))))
   \<and> (''10.0.0.7:5000'', 0)
     \<in> set (snapshot (sweeps [29000]
            (fst (on_message (example_clock\<lparr>received_now := 0\<rparr>) ''hello''
                    example_sender (new_UDPServer 8080)))))
   \<and> ''10.0.0.7:5000''
     \<notin> fst ` set (snapshot (fst (cleanupClients 61000 (sweeps [29000]
            (fst (on_message (example_clock\<lparr>received_now := 0\<rparr>) ''hello''
                    example_sender (new_UDPServer 8080)))))))
   \<and> Console (ClientDisconnected ''10.0.0.7:5000'')
     \<in> set (snd (cleanupClients 61000 (sweeps [29000]
            (fst (on_message (example_clock\<lparr>received_now := 0\<rparr>) ''hello''
                    example_sender (new_UDPServer 8080))))))"
proof -
  have cid: "clientId example_sender = ''10.0.0.7:5000''"
    by (simp add: clientId_def example_sender_def show_nat.simps)
  have t0: "received_now (example_clock\<lparr>received_now := 0\<rparr>) = 0"
    by simp
  have early: "list_all (\<lambda>now. now \<le> 0 + timeout) [29000]"
    by (simp add: timeout_def)
  have late: "0 + timeout < 61000"
    by (simp add: timeout_def)
  from registry_round_trip [of "example_clock\<lparr>received_now := 0\<rparr>" "''hello''" example_sender
      "new_UDPServer 8080" "[29000]" 61000] early late
  show ?thesis
    unfolding Let_def cid t0 by blast
qed

lemma foldl_same_client:
  assumes "list_all (\<lambda>(c, m, r). r = rinfo) ds"
    and "clientId rinfo \<in> fst ` set (DAList.impl_of cl)"
  shows "map fst (DAList.impl_of
            (foldl (\<lambda>cl (clk, message, rinfo). DAList.update (clientId rinfo) (received_now clk) cl)
               cl ds)) = map fst (DAList.impl_of cl)"
  using assms
proof (induction ds arbitrary: cl)
  case Nil
  show ?case by simp
next
  case (Cons d ds)
  obtain c m r where d: "d = (c, m, r)" by (cases d)
  with Cons.prems have r: "r = rinfo" and rest: "list_all (\<lambda>(c, m, r). r = rinfo) ds"
    by simp_all
  have keys: "map fst (DAList.impl_of (DAList.update (clientId rinfo) (received_now c) cl))
              = map fst (DAList.impl_of cl)"
    using Cons.prems(2) by (simp add: DAList.update.rep_eq update_keys)
  then have "clientId rinfo \<in> fst ` set (DAList.impl_of (DAList.update (clientId rinfo) (received_now c) cl))"
    using Cons.prems(2) by (metis list.set_map)
  from Cons.IH [OF rest this] keys show ?case
    by (simp add: d r)
qed

text \<open>
  C5. A datagram adds an entry for its sender when the map has none, and otherwise only
  sets the time of the entry: the size grows by one or stays, the entry reads the time of
  receipt, the entries of other clients are as before, no key is there twice, and
  further datagrams of the same sender leave the size as it is.
\<close>

theorem touch_upsert:
  "(let cl = clients srv;
        cl' = clients (fst (on_message clk message rinfo srv));
        cid = clientId rinfo
    in size cl' = (if cid \<in> fst ` set (DAList.impl_of cl) then size cl else size cl + 1)
     \<and> DAList.lookup cl' cid = Some (received_now clk)
     \<and> (\<forall>k. k \<noteq> cid \<longrightarrow> DAList.lookup cl' k = DAList.lookup cl k)
     \<and> distinct (map fst (DAList.impl_of cl'))
     \<and> (list_all (\<lambda>(c, m, r). r = rinfo) ds \<longrightarrow>
          (\<exists>srv''. snd (listen ds (fst (on_message clk message rinfo srv))) = Inr srv''
             \<and> size (clients srv'') = size cl')))"
proof -
  define cl' where "cl' = clients (fst (on_message clk message rinfo srv))"
  have cl': "cl' = DAList.update (clientId rinfo) (received_now clk) (clients srv)"
    by (simp add: cl'_def on_message_state)
  have member: "clientId rinfo \<in> fst ` set (DAList.impl_of cl')"
    by (simp add: cl' DAList.update.rep_eq dom_update)
  have again: "\<exists>srv''. snd (listen ds (fst (on_message clk message rinfo srv))) = Inr srv''
      \<and> size (clients srv'') = size cl'"
    if same: "list_all (\<lambda>(c, m, r). r = rinfo) ds"
  proof -
    have "length (map fst (DAList.impl_of
            (foldl (\<lambda>cl (clk, message, rinfo). DAList.update (clientId rinfo) (received_now clk) cl)
               cl' ds))) = length (map fst (DAList.impl_of cl'))"
      by (simp only: foldl_same_client [OF same member])
    then show ?thesis
      by (simp add: listen_returns size_alist_def cl'_def)
  qed
  show ?thesis
    unfolding Let_def cl'_def [symmetric]
    using again by (simp add: cl' size_update)
qed

theorem touch_upsert_witness:
  "size (clients (fst (on_message example_clock ''hello'' example_sender (new_UDPServer 8080)))) = 1
   \<and> size (clients (fst (on_message example_clock ''again'' example_sender
              (fst (on_message example_clock ''hello'' example_sender (new_UDPServer 8080)))))) = 1
   \<and> DAList.lookup (clients (fst (on_message example_clock ''hello'' example_sender
              (new_UDPServer 8080)))) (clientId example_sender) = Some 1000"
proof -
  define srv1 where "srv1 = fst (on_message example_clock ''hello'' example_sender (new_UDPServer 8080))"
  have empty: "clientId example_sender \<notin> fst ` set (DAList.impl_of (clients (new_UDPServer 8080)))"
    by (simp add: new_UDPServer_def DAList.empty.rep_eq)
  have there: "clientId example_sender \<in> fst ` set (DAList.impl_of (clients srv1))"
    by (simp add: srv1_def on_message_state DAList.update.rep_eq dom_update)
  have s0: "size (clients (new_UDPServer 8080)) = 0"
    by (simp add: new_UDPServer_def size_alist_def DAList.empty.rep_eq)
  have t: "received_now example_clock = 1000"
    by (simp add: example_clock_def)
  from touch_upsert [of "new_UDPServer 8080" example_clock "''hello''" example_sender "[]"]
  have first: "size (clients srv1) = 1"
    and time: "DAList.lookup (clients srv1) (clientId example_sender) = Some 1000"
    unfolding Let_def using empty s0 t by (simp_all add: srv1_def)
  from touch_upsert [of srv1 example_clock "''again''" example_sender "[]"]
  have "size (clients (fst (on_message example_clock ''again'' example_sender srv1))) = 1"
    unfolding Let_def using there first by simp
  with first time show ?thesis
    by (simp add: srv1_def)
qed

text \<open>
  C7. Whatever the text of a datagram and whatever is raised while it is handled, the
  listener returns: no error leaves it. The registry is then the registry before with the
  sender touched, and the datagrams that follow are handled, from that state, by a server
  that goes on. The two \<^verbatim>\<open>try\<close> blocks of the listener return whatever the handlers in
  them write or raise.
\<close>

theorem errors_contained:
  "(\<exists>out. snd (on_message clk message rinfo srv) = (out, Inr ()))
   \<and> clients (fst (on_message clk message rinfo srv))
       = DAList.update (clientId rinfo) (received_now clk) (clients srv)
   \<and> (\<exists>out srv'. listen rest (fst (on_message clk message rinfo srv)) = (out, Inr srv')
         \<and> listen ((clk, message, rinfo) # rest) srv
             = (fst (snd (on_message clk message rinfo srv)) @ out, Inr srv'))
   \<and> snd (try_catch (try_catch m (\<lambda>_. t)) (\<lambda>err. console (ErrorProcessing err))) = Inr ()"
proof -
  obtain out srv' where rest: "listen rest (fst (on_message clk message rinfo srv)) = (out, Inr srv')"
    using listen_returns [of rest "fst (on_message clk message rinfo srv)"]
    by (metis prod.collapse)
  then have "listen ((clk, message, rinfo) # rest) srv
      = (fst (snd (on_message clk message rinfo srv)) @ out, Inr srv')"
    by (simp add: listen_Cons del: listen.simps)
  with rest on_message_returns [of clk message rinfo srv] show ?thesis
    by (simp add: on_message_state try_catch_contains)
qed

theorem errors_contained_witness:
  "JSON_parse ''null'' = Inr Null
   \<and> handleJoystickData example_clock Null example_sender = ([], Inl TypeError)
   \<and> (\<exists>out. snd (on_message example_clock ''null'' example_sender (new_UDPServer 8080))
              = (out, Inr ()))
   \<and> clients (fst (on_message example_clock ''null'' example_sender (new_UDPServer 8080)))
       = DAList.update ''10.0.0.7:5000'' 1000 DAList.empty
   \<and> (\<exists>out srv'. listen [(example_clock, ''null'', example_sender),
                              (example_clock, ''hello'', example_sender)] (new_UDPServer 8080)
                      = (out, Inr srv'))
   \<and> snd (try_catch (try_catch ([], Inl TypeError) (\<lambda>_. ([], Inl TypeError)))
              (\<lambda>err. console (ErrorProcessing err))) = Inr ()"
proof -
  have parsed: "JSON_parse ''null'' = Inr Null"
    by (simp add: JSON_parse_def is_digit_def)
  have raised: "handleJoystickData example_clock Null example_sender = ([], Inl TypeError)"
    by (rule handleJoystickData_lacks) (simp add: lacks_def get_def)
  have cid: "clientId example_sender = ''10.0.0.7:5000''"
    by (simp add: clientId_def example_sender_def show_nat.simps)
  have t: "received_now example_clock = 1000"
    by (simp add: example_clock_def)
  from errors_contained [of example_clock "''null''" example_sender "new_UDPServer 8080"
      "[(example_clock, ''hello'', example_sender)]" "([], Inl TypeError)" "([], Inl TypeError)"]
  have "(\<exists>out. snd (on_message example_clock ''null'' example_sender (new_UDPServer 8080))
              = (out, Inr ()))
   \<and> clients (fst (on_message example_clock ''null'' example_sender (new_UDPServer 8080)))
       = DAList.update ''10.0.0.7:5000'' 1000 DAList.empty
   \<and> (\<exists>out srv'. listen [(example_clock, ''null'', example_sender),
                              (example_clock, ''hello'', example_sender)] (new_UDPServer 8080)
                      = (out, Inr srv'))
   \<and> snd (try_catch (try_catch ([], Inl TypeError) (\<lambda>_. ([], Inl TypeError)))
              (\<lambda>err. console (ErrorProcessing err))) = Inr ()"
    unfolding cid t by (auto simp: new_UDPServer_def)
  with parsed raised show ?thesis by blast
qed

text \<open>
  C9. The state after a datagram is the state before with the sender's entry set to the
  time of receipt, whatever the text is and however its handling ends: the entry reads
  that time, the entries of the other clients are untouched and none is removed.
\<close>

theorem touch_precedes_handling:
  "fst (on_message clk message rinfo srv)
     = srv\<lparr>clients := DAList.update (clientId rinfo) (received_now clk) (clients srv)\<rparr>
   \<and> fst (on_message clk message' rinfo srv) = fst (on_message clk message rinfo srv)
   \<and> DAList.lookup (clients (fst (on_message clk message rinfo srv))) (clientId rinfo)
       = Some (received_now clk)
   \<and> (\<forall>k. k \<noteq> clientId rinfo \<longrightarrow>
         DAList.lookup (clients (fst (on_message clk message rinfo srv))) k
           = DAList.lookup (clients srv) k)
   \<and> fst ` set (snapshot srv) \<subseteq> fst ` set (snapshot (fst (on_message clk message rinfo srv)))"
  by (auto simp: on_message_state snapshot_def DAList.update.rep_eq dom_update)

theorem touch_precedes_handling_witness:
  "DAList.lookup (clients (fst (on_message example_clock ''null'' example_sender
       (new_UDPServer 8080)))) ''10.0.0.7:5000'' = Some 1000
   \<and> DAList.lookup (clients (fst (on_message example_clock ''null'' example_sender
       (new_UDPServer 8080)))) ''10.0.0.8:5000'' = None
   \<and> fst (on_message example_clock ''hello'' example_sender (new_UDPServer 8080))
       = fst (on_message example_clock ''null'' example_sender (new_UDPServer 8080))"
proof -
  have cid: "clientId example_sender = ''10.0.0.7:5000''"
    by (simp add: clientId_def example_sender_def show_nat.simps)
  have t: "received_now example_clock = 1000"
    by (simp add: example_clock_def)
  have other: "''10.0.0.8:5000'' \<noteq> ''10.0.0.7:5000''"
    by simp
  have before: "DAList.lookup (clients (new_UDPServer 8080)) ''10.0.0.8:5000'' = None"
    by (simp add: new_UDPServer_def)
  from touch_precedes_handling [of example_clock "''null''" example_sender "new_UDPServer 8080"
      "''hello''"] other before
  show ?thesis
    unfolding cid t by simp
qed

text \<open>
  C10. The statistics report returns the server as it was, so the entries and their times
  are unchanged; it writes the number of clients and the port, and names each client of
  the map once, in the order of the map.
\<close>

theorem stats_read_only:
  "fst (getStats now_at uptime srv) = srv
   \<and> snapshot (fst (getStats now_at uptime srv)) = snapshot srv
   \<and> Console (ActiveClients (length (snapshot srv))) \<in> set (snd (getStats now_at uptime srv))
   \<and> Console (PortLine (port srv)) \<in> set (snd (getStats now_at uptime srv))
   \<and> reported (snd (getStats now_at uptime srv)) = map fst (snapshot srv)"
proof -
  have "reported (snd (getStats now_at uptime srv)) = map fst (snapshot srv)"
    by (cases "DAList.impl_of (clients srv)")
       (simp_all add: getStats_def snapshot_def size_alist_def stats_loop_reported reported_append)
  then show ?thesis
    by (simp add: getStats_def snapshot_def size_alist_def)
qed

theorem stats_read_only_witness:
  "fst (getStats (\<lambda>i. 5000) ''12''
          (fst (on_message example_clock ''hello'' example_sender (new_UDPServer 8080))))
     = fst (on_message example_clock ''hello'' example_sender (new_UDPServer 8080))
   \<and> reported (snd (getStats (\<lambda>i. 5000) ''12''
          (fst (on_message example_clock ''hello'' example_sender (new_UDPServer 8080)))))
     = [''10.0.0.7:5000'']"
proof -
  have "map fst (snapshot (fst (on_message example_clock ''hello'' example_sender
          (new_UDPServer 8080)))) = [''10.0.0.7:5000'']"
    by (simp add: snapshot_def on_message_state new_UDPServer_def DAList.update.rep_eq
        DAList.empty.rep_eq clientId_def example_sender_def show_nat.simps)
  with stats_read_only [of "\<lambda>i. 5000" "''12''"
      "fst (on_message example_clock ''hello'' example_sender (new_UDPServer 8080))"]
  show ?thesis by simp
qed

section \<open>Control frames and text\<close>

lemma frame_is_JoystickData: "is_JoystickData (frame lx ld rd)"
  by (simp add: is_JoystickData_def string_at_def frame_def path.simps get_def)

lemma frame_distance:
  "axis_distance (frame lx ld rd) ''left'' = parseFloat_string ld"
  "axis_distance (frame lx ld rd) ''right'' = parseFloat_string rd"
  by (simp_all add: axis_distance_def frame_def path.simps get_def)

lemmas parseFloat_eval =
  parseFloat_string_def decimal_prefix_def ws_len_def is_digit_def digits_value_def
  digit_value_def scale10_def

lemma parseFloat_examples:
  "parseFloat_string ''0.5'' = Finite (1 / 2)"
  "parseFloat_string ''0.0'' = Finite 0"
  "parseFloat_string ''0.5abc'' = Finite (1 / 2)"
  "parseFloat_string ''abc'' = NaN"
  by (simp_all add: parseFloat_eval)

lemma scenario1_parses: "JSON_parse scenario1 = Inr (frame ''0'' ''0.0'' ''0.0'')"
  by (simp add: JSON_parse_def scenario1_def frame_def)

lemma scenario2_parses: "JSON_parse scenario2 = Inr (frame ''50'' ''0.5'' ''0.0'')"
  by (simp add: JSON_parse_def scenario2_def frame_def)

lemma scenario2_significant:
  "gt_threshold (axis_distance (frame ''50'' ''0.5'' ''0.0'') ''left'')
   \<or> gt_threshold (axis_distance (frame ''50'' ''0.5'' ''0.0'') ''right'')"
  by (simp add: frame_distance parseFloat_examples threshold_def)

lemma example_ports:
  "port_accepted (rport example_sender)" "\<not> port_accepted (rport port_zero_sender)"
  by (simp_all add: port_accepted_def example_sender_def port_zero_sender_def)

lemma le_threshold_not_gt: "le_threshold d \<Longrightarrow> \<not> gt_threshold d"
  by (cases d) auto

lemma threshold_midpoint:
  "threshold = (7205759403792794 / 2 ^ 56 + 7205759403792795 / 2 ^ 56) / 2"
  "1 / 10 < threshold"
  by (simp_all add: threshold_def)

text \<open>What a frame of the interface with a significant distance makes the listener do.\<close>

lemma significant_frame_sends:
  assumes "JSON_parse message = Inr data" and "is_JoystickData data"
    and "gt_threshold (axis_distance data ''left'') \<or> gt_threshold (axis_distance data ''right'')"
  shows "snd (snd (on_message clk message rinfo srv)) = Inr ()"
    and "sends (fst (snd (on_message clk message rinfo srv))) =
           (if port_accepted (rport rinfo)
            then [(ack_json (ack_now clk), rport rinfo, address rinfo)] else [])"
proof -
  let ?logs = "[Console (JoystickHeader (joystick_time clk)),
               Console (From (address rinfo) (rport rinfo)), Console Rule]
            @ (if gt_threshold (axis_distance data ''left'')
               then fst (log_axis LEFT ''left'' data) else [])
            @ (if gt_threshold (axis_distance data ''right'')
               then fst (log_axis RIGHT ''right'' data) else [])"
  have logs: "sends ?logs = []"
    by (simp add: sends_append sends_log_axis)
  show "snd (snd (on_message clk message rinfo srv)) = Inr ()"
    using on_message_returns [of clk message rinfo srv] by auto
  show "sends (fst (snd (on_message clk message rinfo srv))) =
           (if port_accepted (rport rinfo)
            then [(ack_json (ack_now clk), rport rinfo, address rinfo)] else [])"
  proof (cases "port_accepted (rport rinfo)")
    case True
    then have "handleJoystickData clk data rinfo =
        (?logs @ [Send (ack_json (ack_now clk)) (rport rinfo) (address rinfo)], Inr ())"
      using assms(3) by (simp add: handleJoystickData_frame [OF assms(2)] Let_def)
    from on_message_returned [OF assms(1) this] logs True show ?thesis
      by (simp add: sends_append del: append.simps)
  next
    case False
    then have "handleJoystickData clk data rinfo = (?logs, Inl RangeError)"
      using assms(3) by (simp add: handleJoystickData_frame [OF assms(2)] Let_def)
    from on_message_raised [OF assms(1) this] logs False show ?thesis
      by (simp add: sends_append text_fallback del: append.simps)
  qed
qed

text \<open>
  C1, as stated, fails twice. From a sender at port 0 the send raises, the text handler is
  tried and its send raises too: nothing is sent. And the timestamp is a second reading of
  the wall clock, which is before the reading of the receipt when the clock was set back.
\<close>

theorem control_frame_unacknowledged:
  "JSON_parse scenario2 = Inr (frame ''50'' ''0.5'' ''0.0'')
   \<and> is_JoystickData (frame ''50'' ''0.5'' ''0.0'')
   \<and> gt_threshold (axis_distance (frame ''50'' ''0.5'' ''0.0'') ''left'')
   \<and> sends (fst (snd (on_message example_clock scenario2 port_zero_sender (new_UDPServer 8080))))
       = []
   \<and> sends (fst (snd (on_message (example_clock\<lparr>ack_now := 999\<rparr>) scenario2 example_sender
                         (new_UDPServer 8080))))
       = [(ack_json 999, 5000, ''10.0.0.7'')]
   \<and> received_now (example_clock\<lparr>ack_now := 999\<rparr>) = 1000"
proof -
  have left: "gt_threshold (axis_distance (frame ''50'' ''0.5'' ''0.0'') ''left'')"
    by (simp add: frame_distance parseFloat_examples threshold_def)
  note s = significant_frame_sends(2) [OF scenario2_parses frame_is_JoystickData
      scenario2_significant]
  have zero: "sends (fst (snd (on_message example_clock scenario2 port_zero_sender
      (new_UDPServer 8080)))) = []"
    using s [of example_clock port_zero_sender] example_ports by simp
  have set_back: "sends (fst (snd (on_message (example_clock\<lparr>ack_now := 999\<rparr>) scenario2
      example_sender (new_UDPServer 8080)))) = [(ack_json 999, 5000, ''10.0.0.7'')]"
    using s [of "example_clock\<lparr>ack_now := 999\<rparr>" example_sender] example_ports
    by (simp add: example_sender_def)
  from scenario2_parses frame_is_JoystickData left zero set_back show ?thesis
    by (simp add: example_clock_def)
qed

text \<open>
  C1, amended. A datagram whose text parses to a frame of the interface with a distance
  greater than the threshold, from a sender whose port the socket accepts, is answered by
  one send, to the port and address of the sender: the JSON object with the status
  \<^verbatim>\<open>received\<close> and, as its timestamp, the integer the clock gives when the acknowledgment
  is built, which is at or after the time of receipt exactly when the clock did not run
  backwards between the two readings. From a sender whose port is refused nothing is
  sent. In both cases the listener returns.
\<close>

theorem control_frame_acknowledged:
  assumes "JSON_parse message = Inr data" and "is_JoystickData data"
    and "gt_threshold (axis_distance data ''left'') \<or> gt_threshold (axis_distance data ''right'')"
  shows "\<exists>out t. snd (on_message clk message rinfo srv) = (out, Inr ())
           \<and> sends out = (if port_accepted (rport rinfo)
                           then [(ack_json t, rport rinfo, address rinfo)] else [])
           \<and> t = ack_now clk
           \<and> (received_now clk \<le> t) = (received_now clk \<le> ack_now clk)
           \<and> JSON_parse (ack_json t)
               = Inr (Obj [(''status'', Str ''received''), (''timestamp'', Num (of_int t))])"
proof -
  from significant_frame_sends [OF assms, of clk rinfo srv]
  have "snd (on_message clk message rinfo srv) = (fst (snd (on_message clk message rinfo srv)), Inr ())"
    and "sends (fst (snd (on_message clk message rinfo srv))) =
           (if port_accepted (rport rinfo)
            then [(ack_json (ack_now clk), rport rinfo, address rinfo)] else [])"
    by (simp_all add: prod_eq_iff)
  then show ?thesis
    using ack_json_parses by blast
qed

theorem control_frame_acknowledged_witness:
  "\<exists>out. snd (on_message example_clock scenario2 example_sender (new_UDPServer 8080))
               = (out, Inr ())
     \<and> sends out = [(ack_json 1001, 5000, ''10.0.0.7'')]
     \<and> JSON_parse (ack_json 1001)
         = Inr (Obj [(''status'', Str ''received''), (''timestamp'', Num 1001)])"
proof -
  from control_frame_acknowledged [OF scenario2_parses frame_is_JoystickData
      scenario2_significant, of example_clock example_sender "new_UDPServer 8080"]
  show ?thesis
    using example_ports by (simp add: example_sender_def example_clock_def)
qed

text \<open>
  C3. A datagram whose text parses to a frame of the interface with both distances numbers
  of at most the threshold has no effect but the touch of its sender: nothing is written,
  nothing is sent, the port is as before.
\<close>

theorem idle_frame_ignored:
  assumes "JSON_parse message = Inr data" and "is_JoystickData data"
    and "le_threshold (axis_distance data ''left'')"
    and "le_threshold (axis_distance data ''right'')"
  shows "on_message clk message rinfo srv =
           (srv\<lparr>clients := DAList.update (clientId rinfo) (received_now clk) (clients srv)\<rparr>,
            [], Inr ())"
proof -
  have "handleJoystickData clk data rinfo = ([], Inr ())"
    using assms(3,4)
    by (simp add: handleJoystickData_frame [OF assms(2)] le_threshold_not_gt Let_def)
  from on_message_returned [OF assms(1) this] on_message_state [of clk message rinfo srv]
  show ?thesis
    by (metis prod.collapse)
qed

theorem idle_frame_ignored_witness:
  "on_message example_clock scenario1 example_sender (new_UDPServer 8080) =
     ((new_UDPServer 8080)\<lparr>clients := DAList.update ''10.0.0.7:5000'' 1000 DAList.empty\<rparr>,
      [], Inr ())"
proof -
  have idle: "le_threshold (axis_distance (frame ''0'' ''0.0'' ''0.0'') ''left'')"
      "le_threshold (axis_distance (frame ''0'' ''0.0'' ''0.0'') ''right'')"
    by (simp_all add: frame_distance parseFloat_examples threshold_def)
  from idle_frame_ignored [OF scenario1_parses frame_is_JoystickData idle,
      of example_clock example_sender "new_UDPServer 8080"]
  show ?thesis
    by (simp add: clientId_def example_sender_def example_clock_def new_UDPServer_def
        show_nat.simps)
qed

lemma decimal_prefix_None:
  "decimal_prefix u = None \<longleftrightarrow>
     \<not> (list_ex is_digit (take 1 u) \<or> (take 1 u = ''.'' \<and> list_ex is_digit (take 1 (drop 1 u))))"
proof (cases u)
  case Nil
  then show ?thesis by (simp add: decimal_prefix_def)
next
  case (Cons c cs)
  show ?thesis
  proof (cases "is_digit c")
    case True
    then have "c \<noteq> CHR ''.''" by (auto simp: is_digit_def)
    with True show ?thesis
      by (simp add: decimal_prefix_def Cons Let_def)
  next
    case False
    then show ?thesis
      by (cases cs) (auto simp: decimal_prefix_def Cons Let_def)
  qed
qed

lemma parseFloat_string_NaN: "parseFloat_string s = NaN \<longleftrightarrow> \<not> numeric_head s"
proof -
  obtain neg u where su: "skip_sign (trimStart s) = (neg, u)"
    by (cases "skip_sign (trimStart s)")
  have "parseFloat_string s = NaN \<longleftrightarrow> take 8 u \<noteq> ''Infinity'' \<and> decimal_prefix u = None"
    by (simp add: parseFloat_string_def su split: option.splits)
  also have "\<dots> \<longleftrightarrow> \<not> numeric_head s"
    unfolding decimal_prefix_None numeric_head_def Let_def su snd_conv by blast
  finally show ?thesis .
qed

lemma no_axis_parses: "JSON_parse no_axis = Inr (Obj [(''foo'', Num 1)])"
  by (simp add: JSON_parse_def no_axis_def is_digit_def lex_number_def lex_exponent_def
      digits_value_def digit_value_def scale10_def)

lemma empty_axes_parses:
  "JSON_parse empty_axes = Inr (Obj [(''left'', Obj []), (''right'', Obj [])])"
  by (simp add: JSON_parse_def empty_axes_def)

lemma left_only_parses:
  "JSON_parse left_only =
     Inr (Obj [(''left'', Obj [(''x'', Str ''50''), (''y'', Str ''0''), (''angle'', Str ''0''),
                               (''distance'', Str ''0.5'')])])"
  by (simp add: JSON_parse_def left_only_def)

lemma numeric_x_parses:
  "JSON_parse numeric_x =
     Inr (Obj [(''left'', Obj [(''x'', Num 1), (''y'', Str ''0''), (''angle'', Str ''0''),
                               (''distance'', Str ''0.5'')]),
               (''right'', Obj [(''x'', Str ''0''), (''y'', Str ''0''), (''angle'', Str ''0''),
                                (''distance'', Str ''0.0'')])])"
  by (simp add: JSON_parse_def numeric_x_def is_digit_def lex_number_def lex_exponent_def
      digits_value_def digit_value_def scale10_def)

lemma numeric_x_raises:
  "handleJoystickData clk
     (Obj [(''left'', Obj [(''x'', Num 1), (''y'', Str ''0''), (''angle'', Str ''0''),
                           (''distance'', Str ''0.5'')]),
           (''right'', Obj [(''x'', Str ''0''), (''y'', Str ''0''), (''angle'', Str ''0''),
                            (''distance'', Str ''0.0'')])]) rinfo
   = ([Console (JoystickHeader (joystick_time clk)),
       Console (From (address rinfo) (rport rinfo)), Console Rule, Console (AxisTitle LEFT)],
      Inl TypeError)"
  by (simp add: handleJoystickData_def log_axis_def path.simps get_def bind_def lift_def
      console_def parseFloat_def parseFloat_examples threshold_def padStart_def)

lemma trailing_text_parses: "JSON_parse trailing_text = Inr (frame ''0'' ''0.5abc'' ''0.0'')"
  by (simp add: JSON_parse_def trailing_text_def frame_def)

lemma unparsable_texts:
  "JSON_parse [] = Inl SyntaxError"
  "JSON_parse ''hello'' = Inl SyntaxError"
  \<open>JSON_parse ''{"left":'' = Inl SyntaxError\<close>
  by (simp_all add: JSON_parse_def is_digit_def)

text \<open>
  C2, as the specification states it, fails twice. A text that parses to a value with both
  axes but without their fields is not a frame of the interface, and is not answered at
  all. And a text that is not JSON, from a sender at port 0, is not answered: the send
  raises.
\<close>

theorem shapeless_frame_unanswered:
  "JSON_parse empty_axes = Inr (Obj [(''left'', Obj []), (''right'', Obj [])])
   \<and> \<not> is_JoystickData (Obj [(''left'', Obj []), (''right'', Obj [])])
   \<and> snd (on_message example_clock empty_axes example_sender (new_UDPServer 8080)) = ([], Inr ())
   \<and> JSON_parse ''hello'' = Inl SyntaxError
   \<and> snd (on_message example_clock ''hello'' port_zero_sender (new_UDPServer 8080))
       = ([Console (TextHeader ''10:00:01 AM''), Console (From ''10.0.0.7'' 0),
           Console (MessageLine ''hello''), Console Rule,
           Console (ErrorProcessing RangeError)], Inr ())"
proof -
  have "handleJoystickData example_clock (Obj [(''left'', Obj []), (''right'', Obj [])])
          example_sender = ([], Inr ())"
    by (simp add: handleJoystickData_def path.simps get_def bind_def lift_def parseFloat_def
        ret_def)
  from on_message_returned [OF empty_axes_parses this] empty_axes_parses
  have shapeless: "JSON_parse empty_axes = Inr (Obj [(''left'', Obj []), (''right'', Obj [])])
   \<and> \<not> is_JoystickData (Obj [(''left'', Obj []), (''right'', Obj [])])
   \<and> snd (on_message example_clock empty_axes example_sender (new_UDPServer 8080)) = ([], Inr ())"
    by (simp add: is_JoystickData_def string_at_def path.simps get_def)
  from on_message_syntax_error [OF unparsable_texts(2), of example_clock port_zero_sender
      "new_UDPServer 8080"] example_ports
  have "snd (on_message example_clock ''hello'' port_zero_sender (new_UDPServer 8080))
       = ([Console (TextHeader ''10:00:01 AM''), Console (From ''10.0.0.7'' 0),
           Console (MessageLine ''hello''), Console Rule,
           Console (ErrorProcessing RangeError)], Inr ())"
    by (simp add: text_fallback example_clock_def port_zero_sender_def)
  with shapeless unparsable_texts(2) show ?thesis
    by blast
qed

text \<open>
  C2, amended. A text that \<^verbatim>\<open>JSON.parse\<close> rejects, and a text that parses to a value on
  which the control handler raises, as it does on a value that lacks \<^verbatim>\<open>left\<close> or
  \<^verbatim>\<open>right\<close>, is handled as a text message: after what the control handler wrote, without
  a send, come the lines of the text handler, and then, for a sender whose port the
  socket accepts, the one send, to the sender, of the text between the quotes of
  \<^verbatim>\<open>Server received: "..." at\<close> and the local time. For a sender whose port is refused
  the error is written and nothing is sent. The listener returns. A text that parses to a
  value on which the control handler returns is control data: the events are those of
  the control handler, with no text message.
\<close>

theorem unparsable_text_echoed:
  \<open>(JSON_parse message = Inl e
     \<or> (JSON_parse message = Inr data
         \<and> (lacks data ''left'' \<or> lacks data ''right''
             \<or> snd (handleJoystickData clk data rinfo) = Inl e')) \<longrightarrow>
     (\<exists>pre. snd (on_message clk message rinfo srv)
             = (pre @ [Console (TextHeader (text_time clk)),
                       Console (From (address rinfo) (rport rinfo)),
                       Console (MessageLine message), Console Rule,
                       if port_accepted (rport rinfo)
                       then Send (''Server received: "'' @ message @ ''" at '' @ text_time clk)
                              (rport rinfo) (address rinfo)
                       else Console (ErrorProcessing RangeError)], Inr ())
           \<and> sends pre = []
           \<and> sends (fst (snd (on_message clk message rinfo srv)))
               = (if port_accepted (rport rinfo)
                  then [(''Server received: "'' @ message @ ''" at '' @ text_time clk,
                         rport rinfo, address rinfo)]
                  else [])))
   \<and> (JSON_parse message = Inr data \<and> snd (handleJoystickData clk data rinfo) = Inr () \<longrightarrow>
         snd (on_message clk message rinfo srv) = handleJoystickData clk data rinfo)\<close>
proof -
  let ?echo = \<open>[Console (TextHeader (text_time clk)),
                Console (From (address rinfo) (rport rinfo)),
                Console (MessageLine message), Console Rule,
                if port_accepted (rport rinfo)
                then Send (''Server received: "'' @ message @ ''" at '' @ text_time clk)
                       (rport rinfo) (address rinfo)
                else Console (ErrorProcessing RangeError)]\<close>
  have text_case: \<open>\<exists>pre. snd (on_message clk message rinfo srv) = (pre @ ?echo, Inr ())
           \<and> sends pre = []
           \<and> sends (fst (snd (on_message clk message rinfo srv)))
               = (if port_accepted (rport rinfo)
                  then [(''Server received: "'' @ message @ ''" at '' @ text_time clk,
                         rport rinfo, address rinfo)]
                  else [])\<close>
    if fails: "JSON_parse message = Inl e
       \<or> (JSON_parse message = Inr data
           \<and> (lacks data ''left'' \<or> lacks data ''right''
               \<or> snd (handleJoystickData clk data rinfo) = Inl e'))"
  proof -
    have "\<exists>pre. snd (on_message clk message rinfo srv) = (pre @ ?echo, Inr ()) \<and> sends pre = []"
      using fails
    proof
      assume "JSON_parse message = Inl e"
      from on_message_syntax_error [OF this, of clk rinfo srv]
      have "snd (on_message clk message rinfo srv) = ([] @ ?echo, Inr ())"
        by (simp add: text_fallback)
      then show ?thesis
        by (metis sends.simps(1))
    next
      assume a: "JSON_parse message = Inr data
                 \<and> (lacks data ''left'' \<or> lacks data ''right''
                     \<or> snd (handleJoystickData clk data rinfo) = Inl e')"
      then have "\<exists>err. snd (handleJoystickData clk data rinfo) = Inl err"
        using handleJoystickData_lacks [of data clk rinfo] by auto
      then obtain pre err where h: "handleJoystickData clk data rinfo = (pre, Inl err)"
        by (metis prod.collapse)
      then have quiet: "sends pre = []"
        using handleJoystickData_raised_sends [of clk data rinfo err] by simp
      from a have "JSON_parse message = Inr data" by simp
      from on_message_raised [OF this h, of srv]
      have "snd (on_message clk message rinfo srv) = (pre @ ?echo, Inr ())"
        by (simp add: text_fallback)
      with quiet show ?thesis
        by blast
    qed
    then obtain pre where
      whole: "snd (on_message clk message rinfo srv) = (pre @ ?echo, Inr ())"
      and quiet: "sends pre = []"
      by blast
    have \<open>sends (fst (snd (on_message clk message rinfo srv)))
        = (if port_accepted (rport rinfo)
           then [(''Server received: "'' @ message @ ''" at '' @ text_time clk,
                  rport rinfo, address rinfo)]
           else [])\<close>
      unfolding whole using quiet by (simp add: sends_append)
    with whole quiet show ?thesis
      by blast
  qed
  have control_case: "snd (on_message clk message rinfo srv) = handleJoystickData clk data rinfo"
    if "JSON_parse message = Inr data" and "snd (handleJoystickData clk data rinfo) = Inr ()"
  proof -
    from that(2) have "handleJoystickData clk data rinfo
        = (fst (handleJoystickData clk data rinfo), Inr ())"
      by (simp add: prod_eq_iff)
    from on_message_returned [OF that(1) this] this show ?thesis
      by simp
  qed
  from text_case control_case show ?thesis
    by blast
qed

theorem unparsable_text_echoed_witness:
  \<open>sends (fst (snd (on_message example_clock ''hello'' example_sender (new_UDPServer 8080))))
     = [(''Server received: "hello" at 10:00:01 AM'', 5000, ''10.0.0.7'')]
   \<and> sends (fst (snd (on_message example_clock [] example_sender (new_UDPServer 8080))))
     = [(''Server received: "" at 10:00:01 AM'', 5000, ''10.0.0.7'')]
   \<and> sends (fst (snd (on_message example_clock ''{"left":'' example_sender (new_UDPServer 8080))))
     = [(''Server received: "{"left":" at 10:00:01 AM'', 5000, ''10.0.0.7'')]
   \<and> sends (fst (snd (on_message example_clock left_only example_sender (new_UDPServer 8080))))
     = [(''Server received: "'' @ left_only @ ''" at 10:00:01 AM'', 5000, ''10.0.0.7'')]
   \<and> sends (fst (snd (on_message example_clock numeric_x example_sender (new_UDPServer 8080))))
     = [(''Server received: "'' @ numeric_x @ ''" at 10:00:01 AM'', 5000, ''10.0.0.7'')]
   \<and> snd (on_message example_clock scenario1 example_sender (new_UDPServer 8080)) = ([], Inr ())\<close>
proof -
  have no_right: "lacks (Obj [(''left'', Obj [(''x'', Str ''50''), (''y'', Str ''0''),
      (''angle'', Str ''0''), (''distance'', Str ''0.5'')])]) ''right''"
    by (simp add: lacks_def get_def)
  have echo: \<open>sends (fst (snd (on_message example_clock m example_sender (new_UDPServer 8080))))
      = [(''Server received: "'' @ m @ ''" at 10:00:01 AM'', 5000, ''10.0.0.7'')]\<close>
    if "JSON_parse m = Inl SyntaxError
        \<or> (JSON_parse m = Inr d
            \<and> (lacks d ''left'' \<or> lacks d ''right''
                \<or> snd (handleJoystickData example_clock d example_sender) = Inl TypeError))"
    for m d
    using unparsable_text_echoed [of m SyntaxError d example_clock example_sender TypeError
        "new_UDPServer 8080"] that example_ports
    by (auto simp: example_clock_def example_sender_def)
  have raises: "snd (handleJoystickData example_clock
     (Obj [(''left'', Obj [(''x'', Num 1), (''y'', Str ''0''), (''angle'', Str ''0''),
                           (''distance'', Str ''0.5'')]),
           (''right'', Obj [(''x'', Str ''0''), (''y'', Str ''0''), (''angle'', Str ''0''),
                            (''distance'', Str ''0.0'')])]) example_sender) = Inl TypeError"
    by (simp add: numeric_x_raises)
  have idle: "handleJoystickData example_clock (frame ''0'' ''0.0'' ''0.0'') example_sender
      = ([], Inr ())"
    by (simp add: handleJoystickData_frame [OF frame_is_JoystickData] Let_def frame_distance
        parseFloat_examples threshold_def)
  with unparsable_text_echoed [of scenario1 SyntaxError "frame ''0'' ''0.0'' ''0.0''"
      example_clock example_sender TypeError "new_UDPServer 8080"] scenario1_parses
  have control: "snd (on_message example_clock scenario1 example_sender (new_UDPServer 8080))
      = ([], Inr ())"
    by simp
  from echo [of "''hello''"] echo [of "[]"] echo [of \<open>''{"left":''\<close>]
    echo [of left_only, OF disjI2, OF conjI, OF left_only_parses disjI2, OF disjI1, OF no_right]
    echo [of numeric_x, OF disjI2, OF conjI, OF numeric_x_parses disjI2, OF disjI2, OF raises]
    control
  show ?thesis
    by (simp add: unparsable_texts)
qed

text \<open>
  C8, as stated, fails: a text that parses to a value without the axes is answered, by the
  text message.
\<close>

theorem no_axis_answered:
  \<open>JSON_parse no_axis = Inr (Obj [(''foo'', Num 1)])
   \<and> lacks (Obj [(''foo'', Num 1)]) ''left''
   \<and> sends (fst (snd (on_message example_clock no_axis example_sender (new_UDPServer 8080))))
       = [(''Server received: "{"foo":1}" at 10:00:01 AM'', 5000, ''10.0.0.7'')]\<close>
proof -
  have l: "lacks (Obj [(''foo'', Num 1)]) ''left''"
    by (simp add: lacks_def get_def)
  then have "handleJoystickData example_clock (Obj [(''foo'', Num 1)]) example_sender
               = ([], Inl TypeError)"
    by (simp add: handleJoystickData_lacks)
  from on_message_raised [OF no_axis_parses this] l no_axis_parses example_ports show ?thesis
    by (simp add: text_fallback example_clock_def example_sender_def no_axis_def)
qed

text \<open>
  C8, amended. When the text parses to a value that lacks \<^verbatim>\<open>left\<close> or \<^verbatim>\<open>right\<close>, the read
  of the distance raises \<^verbatim>\<open>TypeError\<close> before anything is written; the inner \<^verbatim>\<open>catch\<close>
  takes it and calls \<^verbatim>\<open>handleTextMessage\<close>, which writes its lines. For a sender whose
  port the socket accepts the one send is then the text message: no control
  acknowledgment goes out and no error line is written. For a sender whose port is
  refused that send raises, the outer \<^verbatim>\<open>catch\<close> writes the error and nothing is sent.
  In both cases the server goes on with the datagrams that follow.
\<close>

theorem missing_axis_falls_back_to_text:
  assumes "JSON_parse message = Inr data" and "lacks data ''left'' \<or> lacks data ''right''"
  shows \<open>handleJoystickData clk data rinfo = ([], Inl TypeError)
         \<and> on_message clk message rinfo srv
             = (srv\<lparr>clients := DAList.update (clientId rinfo) (received_now clk) (clients srv)\<rparr>,
                [Console (TextHeader (text_time clk)),
                 Console (From (address rinfo) (rport rinfo)),
                 Console (MessageLine message), Console Rule,
                 if port_accepted (rport rinfo)
                 then Send (''Server received: "'' @ message @ ''" at '' @ text_time clk)
                        (rport rinfo) (address rinfo)
                 else Console (ErrorProcessing RangeError)],
                Inr ())
         \<and> (\<exists>out srv'. listen ((clk, message, rinfo) # rest) srv = (out, Inr srv'))\<close>
proof -
  have raised: "handleJoystickData clk data rinfo = ([], Inl TypeError)"
    using assms(2) by (rule handleJoystickData_lacks)
  from on_message_raised [OF assms(1) this, of srv]
  have "snd (on_message clk message rinfo srv)
      = try_catch (handleTextMessage clk message rinfo) (\<lambda>err. console (ErrorProcessing err))"
    by (simp add: text_fallback)
  with on_message_state [of clk message rinfo srv]
  have whole: "on_message clk message rinfo srv
      = (srv\<lparr>clients := DAList.update (clientId rinfo) (received_now clk) (clients srv)\<rparr>,
         try_catch (handleTextMessage clk message rinfo) (\<lambda>err. console (ErrorProcessing err)))"
    by (metis prod.collapse)
  have "\<exists>out srv'. listen ((clk, message, rinfo) # rest) srv = (out, Inr srv')"
    using listen_returns [of "(clk, message, rinfo) # rest" srv] by (metis prod.collapse)
  with raised whole show ?thesis
    by (simp add: text_fallback)
qed

theorem missing_axis_falls_back_to_text_witness:
  \<open>on_message example_clock ''[]'' example_sender (new_UDPServer 8080)
     = ((new_UDPServer 8080)\<lparr>clients := DAList.update ''10.0.0.7:5000'' 1000 DAList.empty\<rparr>,
        [Console (TextHeader ''10:00:01 AM''), Console (From ''10.0.0.7'' 5000),
         Console (MessageLine ''[]''), Console Rule,
         Send ''Server received: "[]" at 10:00:01 AM'' 5000 ''10.0.0.7''],
        Inr ())
   \<and> on_message example_clock ''[]'' port_zero_sender (new_UDPServer 8080)
     = ((new_UDPServer 8080)\<lparr>clients := DAList.update ''10.0.0.7:0'' 1000 DAList.empty\<rparr>,
        [Console (TextHeader ''10:00:01 AM''), Console (From ''10.0.0.7'' 0),
         Console (MessageLine ''[]''), Console Rule,
         Console (ErrorProcessing RangeError)],
        Inr ())\<close>
proof -
  have parsed: "JSON_parse ''[]'' = Inr (Arr [])"
    by (simp add: JSON_parse_def)
  have lacking: "lacks (Arr []) ''left'' \<or> lacks (Arr []) ''right''"
    by (simp add: lacks_def get_def)
  from missing_axis_falls_back_to_text [OF parsed lacking, of example_clock example_sender
      "new_UDPServer 8080" "[]"]
    missing_axis_falls_back_to_text [OF parsed lacking, of example_clock port_zero_sender
      "new_UDPServer 8080" "[]"]
    example_ports
  show ?thesis
    by (simp add: example_clock_def example_sender_def port_zero_sender_def clientId_def
        show_nat.simps new_UDPServer_def)
qed

text \<open>
  C6, as stated, fails twice. A distance whose text is not a decimal number, but begins
  with one, is read as that number, and alone makes the handler write and acknowledge.
  And with a distance that is no number at all the handler raises, when the other axis is
  significant and the sender is at port 0.
\<close>

theorem trailing_text_significant:
  "\<not> spec_decimal_number ''0.5abc''
   \<and> JSON_parse trailing_text = Inr (frame ''0'' ''0.5abc'' ''0.0'')
   \<and> is_JoystickData (frame ''0'' ''0.5abc'' ''0.0'')
   \<and> \<not> gt_threshold (axis_distance (frame ''0'' ''0.5abc'' ''0.0'') ''right'')
   \<and> handleJoystickData example_clock (frame ''0'' ''0.5abc'' ''0.0'') example_sender
       = ([Console (JoystickHeader ''10:00:00 AM''), Console (From ''10.0.0.7'' 5000),
           Console Rule, Console (AxisTitle LEFT),
           Console (AxisXY LEFT ''     0'' ''     0''),
           Console (AxisAngleDistance LEFT ''     0'' (Str ''0.5abc'')),
           Send (ack_json 1001) 5000 ''10.0.0.7''], Inr ())
   \<and> \<not> spec_decimal_number ''abc''
   \<and> is_JoystickData (frame ''0'' ''abc'' ''0.5'')
   \<and> snd (handleJoystickData example_clock (frame ''0'' ''abc'' ''0.5'') port_zero_sender)
       = Inl RangeError"
proof -
  have malformed: "\<not> spec_decimal_number ''0.5abc''" "\<not> spec_decimal_number ''abc''"
    by (simp_all add: spec_decimal_number_def is_digit_def)
  have right: "\<not> gt_threshold (axis_distance (frame ''0'' ''0.5abc'' ''0.0'') ''right'')"
    by (simp add: frame_distance parseFloat_examples threshold_def)
  have left: "gt_threshold (axis_distance (frame ''0'' ''0.5abc'' ''0.0'') ''left'')"
    by (simp add: frame_distance parseFloat_examples threshold_def)
  have axis: "log_axis LEFT ''left'' (frame ''0'' ''0.5abc'' ''0.0'')
      = ([Console (AxisTitle LEFT), Console (AxisXY LEFT (pad 6 ''0'') (pad 6 ''0'')),
          Console (AxisAngleDistance LEFT (pad 6 ''0'') (Str ''0.5abc''))], Inr ())"
    by (rule log_axis_strings) (simp_all add: frame_def path.simps get_def)
  have pad: "pad 6 ''0'' = ''     0''"
    by (simp add: pad_def utf16_length_def numeral_eq_Suc)
  have first: "handleJoystickData example_clock (frame ''0'' ''0.5abc'' ''0.0'') example_sender
       = ([Console (JoystickHeader ''10:00:00 AM''), Console (From ''10.0.0.7'' 5000),
           Console Rule, Console (AxisTitle LEFT),
           Console (AxisXY LEFT ''     0'' ''     0''),
           Console (AxisAngleDistance LEFT ''     0'' (Str ''0.5abc'')),
           Send (ack_json 1001) 5000 ''10.0.0.7''], Inr ())"
    using left right example_ports
    by (simp add: handleJoystickData_frame [OF frame_is_JoystickData] axis pad Let_def
        example_clock_def example_sender_def)
  have other: "gt_threshold (axis_distance (frame ''0'' ''abc'' ''0.5'') ''right'')"
    by (simp add: frame_distance parseFloat_examples threshold_def)
  have second: "snd (handleJoystickData example_clock (frame ''0'' ''abc'' ''0.5'')
      port_zero_sender) = Inl RangeError"
    using other example_ports
    by (simp add: handleJoystickData_frame [OF frame_is_JoystickData] Let_def)
  from malformed right trailing_text_parses frame_is_JoystickData first second show ?thesis
    by blast
qed

text \<open>
  C6, amended. On a frame of the interface the reads and the parsing of the distances do
  not raise, whatever their texts: the handler returns, but for the send of a significant
  frame to a sender whose port the socket refuses. Each distance is what \<^verbatim>\<open>parseFloat\<close>
  reads from its text; the handler writes exactly when one is greater than the threshold,
  and then sends the acknowledgment if the port is accepted. A distance whose text does
  not begin with a number (after white space and an optional sign: \<^verbatim>\<open>Infinity\<close>, a
  digit, or a dot and a digit) reads as \<^verbatim>\<open>NaN\<close>: the lines of its axis are not written,
  and when the other distance is not greater than the threshold nothing is written or
  sent.
\<close>

theorem distance_without_number:
  assumes "is_JoystickData data"
  shows "snd (handleJoystickData clk data rinfo)
       = (if (gt_threshold (axis_distance data ''left'')
              \<or> gt_threshold (axis_distance data ''right''))
             \<and> \<not> port_accepted (rport rinfo)
          then Inl RangeError else Inr ())
     \<and> (fst (handleJoystickData clk data rinfo) = [])
       = (\<not> gt_threshold (axis_distance data ''left'')
          \<and> \<not> gt_threshold (axis_distance data ''right''))
     \<and> sends (fst (handleJoystickData clk data rinfo))
       = (if (gt_threshold (axis_distance data ''left'')
              \<or> gt_threshold (axis_distance data ''right''))
             \<and> port_accepted (rport rinfo)
          then [(ack_json (ack_now clk), rport rinfo, address rinfo)] else [])
     \<and> (\<forall>d. string_at data [''left'', ''distance''] = Some d \<longrightarrow>
           axis_distance data ''left'' = parseFloat_string d)
     \<and> (\<forall>d. string_at data [''right'', ''distance''] = Some d \<longrightarrow>
           axis_distance data ''right'' = parseFloat_string d)
     \<and> (\<forall>d. string_at data [''left'', ''distance''] = Some d \<and> \<not> numeric_head d \<longrightarrow>
           axis_distance data ''left'' = NaN
           \<and> Console (AxisTitle LEFT) \<notin> set (fst (handleJoystickData clk data rinfo))
           \<and> (\<not> gt_threshold (axis_distance data ''right'') \<longrightarrow>
                handleJoystickData clk data rinfo = ([], Inr ())))
     \<and> (\<forall>d. string_at data [''right'', ''distance''] = Some d \<and> \<not> numeric_head d \<longrightarrow>
           axis_distance data ''right'' = NaN
           \<and> Console (AxisTitle RIGHT) \<notin> set (fst (handleJoystickData clk data rinfo))
           \<and> (\<not> gt_threshold (axis_distance data ''left'') \<longrightarrow>
                handleJoystickData clk data rinfo = ([], Inr ())))"
proof -
  note h = handleJoystickData_frame [OF assms, of clk rinfo, unfolded Let_def]
  have reads: "axis_distance data name = parseFloat_string d"
    if "string_at data [name, ''distance''] = Some d" for name d
    using that by (simp add: axis_distance_def string_at_Some)
  have nan: "axis_distance data name = NaN"
    if "string_at data [name, ''distance''] = Some d" and "\<not> numeric_head d" for name d
    using that by (simp add: reads parseFloat_string_NaN)
  have titles: "a = b" if "Console (AxisTitle a) \<in> set (fst (log_axis b name data))"
    for a b name
    using that unfolding log_axis_def
    by (auto simp: bind_def lift_def console_def split: sum.splits prod.splits)
  have returns: "snd (handleJoystickData clk data rinfo)
       = (if (gt_threshold (axis_distance data ''left'')
              \<or> gt_threshold (axis_distance data ''right''))
             \<and> \<not> port_accepted (rport rinfo)
          then Inl RangeError else Inr ())"
    by (simp add: h)
  have silent: "(fst (handleJoystickData clk data rinfo) = [])
       = (\<not> gt_threshold (axis_distance data ''left'')
          \<and> \<not> gt_threshold (axis_distance data ''right''))"
    by (simp add: h)
  have sent: "sends (fst (handleJoystickData clk data rinfo))
       = (if (gt_threshold (axis_distance data ''left'')
              \<or> gt_threshold (axis_distance data ''right''))
             \<and> port_accepted (rport rinfo)
          then [(ack_json (ack_now clk), rport rinfo, address rinfo)] else [])"
    by (simp add: h sends_append sends_log_axis)
  have left: "Console (AxisTitle LEFT) \<notin> set (fst (handleJoystickData clk data rinfo))"
    if "axis_distance data ''left'' = NaN"
    using that titles [of LEFT RIGHT "''right''"] by (auto simp: h)
  have right: "Console (AxisTitle RIGHT) \<notin> set (fst (handleJoystickData clk data rinfo))"
    if "axis_distance data ''right'' = NaN"
    using that titles [of RIGHT LEFT "''left''"] by (auto simp: h)
  have quiet: "handleJoystickData clk data rinfo = ([], Inr ())"
    if "axis_distance data a = NaN" and "\<not> gt_threshold (axis_distance data b)"
      and "(a, b) = (''left'', ''right'') \<or> (a, b) = (''right'', ''left'')" for a b
    using that by (auto simp: h)
  show ?thesis
    using returns silent sent reads nan left right quiet by blast
qed

theorem distance_without_number_witness:
  "handleJoystickData example_clock (frame ''0'' ''abc'' ''0.0'') example_sender = ([], Inr ())
   \<and> snd (handleJoystickData example_clock (frame ''0'' ''abc'' ''0.5'') example_sender) = Inr ()"
proof -
  have d: "string_at (frame ''0'' ''abc'' ''0.0'') [''left'', ''distance''] = Some ''abc''"
    by (simp add: string_at_def frame_def path.simps get_def)
  have n: "\<not> numeric_head ''abc''"
    by (simp add: numeric_head_def ws_len_def is_digit_def)
  have r: "\<not> gt_threshold (axis_distance (frame ''0'' ''abc'' ''0.0'') ''right'')"
    by (simp add: frame_distance parseFloat_examples threshold_def)
  from distance_without_number [OF frame_is_JoystickData [of "''0''" "''abc''" "''0.0''"],
      of example_clock example_sender] d n r
  have quiet: "handleJoystickData example_clock (frame ''0'' ''abc'' ''0.0'') example_sender
      = ([], Inr ())"
    by blast
  from distance_without_number [OF frame_is_JoystickData [of "''0''" "''abc''" "''0.5''"],
      of example_clock example_sender] example_ports
  have "snd (handleJoystickData example_clock (frame ''0'' ''abc'' ''0.5'') example_sender) = Inr ()"
    by simp
  with quiet show ?thesis
    by blast
qed

end
